theory Spec2Isabelle
  imports Complex_Main "HOL-Library.AList" "HOL-Library.Multiset" "HOL-Library.Log_Nat"
begin

section \<open>JavaScript numbers\<close>

text \<open>
  A JavaScript number is an IEEE binary64 value. The finite ones are reals, and
  they are modelled as such: a real stands for the double nearest to it, which
  is what a decimal literal of the source parses to, and \<open>+\<close> and \<open>*\<close> round
  their exact result to the nearest double, ties to the even significand. The
  significand has 53 bits. The exponent is not bounded here: overflow to
  \<open>Infinity\<close> (from about \<open>1.8e308\<close>), underflow below \<open>2.3e-308\<close>,
  \<open>NaN\<close> and the sign of zero are outside the model. Time stamps of
  \<open>Date.now()\<close> are integers.
\<close>

text \<open>The nearest integer, ties to even.\<close>

definition round_half_even :: "real \<Rightarrow> int" where
  "round_half_even x =
     (let f = \<lfloor>x\<rfloor>
      in if x - of_int f < 1 / 2 then f
         else if 1 / 2 < x - of_int f then f + 1
         else if even f then f else f + 1)"

text \<open>
  The binary exponent of \<open>x\<close>: the \<open>e\<close> with \<open>2^e \<le> |x| < 2^(e+1)\<close>,
  computed from the bit length of an integer.
\<close>

definition binade :: "real \<Rightarrow> int" where
  "binade x =
     (if 1 \<le> \<bar>x\<bar> then bitlen \<lfloor>\<bar>x\<bar>\<rfloor> - 1 else - bitlen (\<lceil>1 / \<bar>x\<bar>\<rceil> - 1))"

text \<open>
  Rounding to 53 significant bits: the doubles between \<open>2^e\<close> and
  \<open>2^(e+1)\<close> are the multiples of \<open>2^(e-52)\<close>.
\<close>

definition round_double :: "real \<Rightarrow> real" where
  "round_double x =
     of_int (round_half_even (x / 2 powi (binade x - 52))) * 2 powi (binade x - 52)"

text \<open>
  \<open>js_num\<close> reads a stored value or a literal as the double it stands for;
  \<open>js_add\<close> and \<open>js_mul\<close> are \<open>+\<close> and \<open>*\<close> on doubles.
\<close>

definition js_num :: "real \<Rightarrow> real" where
  "js_num x = round_double x"

definition js_add :: "real \<Rightarrow> real \<Rightarrow> real" where
  "js_add x y = round_double (x + y)"

definition js_mul :: "real \<Rightarrow> real \<Rightarrow> real" where
  "js_mul x y = round_double (x * y)"

text \<open>The relative error of one rounding is at most \<open>2^-53\<close>.\<close>

definition unit_roundoff :: real where
  "unit_roundoff = 1 / 2 ^ 53"

section \<open>The price source: \<open>src/utils/api.ts\<close>\<close>

text \<open>
  A rejected promise or a thrown exception is a value of type \<open>error\<close> on the
  left of a sum.
\<close>

datatype error = NetworkError | TypeError | CallException

subsection \<open>Data\<close>

text \<open>One entry of \<open>TokenMarketData\<close>: \<open>usd\<close> and the optional statistics.\<close>

record price_entry =
  usd :: real
  usd_24h_change :: "real option"
  usd_market_cap :: "real option"
  usd_24h_vol :: "real option"

type_synonym TokenMarketData = "string \<rightharpoonup> price_entry"

text \<open>
  What \<open>response.data\<close> holds at run time: the declared type is
  \<open>TokenMarketData\<close>, but the body of the response is whatever JSON the server
  sent; \<open>JNull\<close> is the body \<open>null\<close>, on which a property read throws.
\<close>

datatype payload = JNull | JTable TokenMarketData

record cache_entry =
  data :: payload
  timestamp :: int

text \<open>
  The module state: the \<open>Map\<close> called \<open>cache\<close>, in insertion order (a
  JavaScript \<open>Map\<close> keeps it, and \<open>set\<close> on a present key replaces the value
  in place), and \<open>lastRequestTime\<close>.
\<close>

record api_state =
  cache :: "(string \<times> cache_entry) list"
  lastRequestTime :: int

definition CACHE_DURATION :: int where
  "CACHE_DURATION = 5 * 60 * 1000"

definition MIN_REQUEST_INTERVAL :: int where
  "MIN_REQUEST_INTERVAL = 1000"

definition initial_state :: api_state where
  "initial_state = \<lparr>cache = [], lastRequestTime = 0\<rparr>"

subsection \<open>The cache key\<close>

text \<open>\<open>Array.prototype.join(',')\<close>.\<close>

fun join_comma :: "string list \<Rightarrow> string" where
  "join_comma [] = []"
| "join_comma [x] = x"
| "join_comma (x # y # ys) = x @ '','' @ join_comma (y # ys)"

definition cacheKey :: "string list \<Rightarrow> string" where
  "cacheKey tokenIds = ''prices_'' @ join_comma tokenIds"

subsection \<open>Cache operations\<close>

text \<open>
  \<open>cache.get(cacheKey)\<close> followed by the freshness test
  \<open>cached && Date.now() - cached.timestamp < CACHE_DURATION\<close>: the data when
  the test passes.
\<close>

definition cache_fresh :: "(string \<times> cache_entry) list \<Rightarrow> string \<Rightarrow> int \<Rightarrow> payload option" where
  "cache_fresh c key now =
     (case map_of c key of
        None \<Rightarrow> None
      | Some cached \<Rightarrow> if now - timestamp cached < CACHE_DURATION then Some (data cached) else None)"

text \<open>\<open>cache.set(cacheKey, { data, timestamp })\<close>.\<close>

definition cache_set :: "string \<Rightarrow> payload \<Rightarrow> int \<Rightarrow> api_state \<Rightarrow> api_state" where
  "cache_set key d now s = s\<lparr>cache := AList.update key \<lparr>data = d, timestamp = now\<rparr> (cache s)\<rparr>"

definition clearCache :: "api_state \<Rightarrow> api_state" where
  "clearCache s = s\<lparr>cache := []\<rparr>"

record cache_stats =
  size' :: nat
  entries :: "string list"

definition getCacheStats :: "api_state \<Rightarrow> cache_stats" where
  "getCacheStats s = \<lparr>size' = length (cache s), entries = map fst (cache s)\<rparr>"

subsection \<open>The rate limiter\<close>

text \<open>
  The test \<open>now - lastRequestTime < MIN_REQUEST_INTERVAL\<close> and the argument of
  \<open>delay\<close>: \<open>Some ms\<close> when the caller must sleep, \<open>None\<close> when it goes on
  at once.
\<close>

definition rate_limit_delay :: "int \<Rightarrow> int \<Rightarrow> int option" where
  "rate_limit_delay now lastReq =
     (if now - lastReq < MIN_REQUEST_INTERVAL then Some (MIN_REQUEST_INTERVAL - (now - lastReq)) else None)"

subsection \<open>fetchTokenPrices\<close>

definition fallbackPrices :: TokenMarketData where
  "fallbackPrices = map_of
     [(''ethereum'', \<lparr>usd = 3200, usd_24h_change = Some 0, usd_market_cap = None, usd_24h_vol = None\<rparr>),
      (''uniswap'', \<lparr>usd = 24.2, usd_24h_change = Some 0, usd_market_cap = None, usd_24h_vol = None\<rparr>),
      (''aave'', \<lparr>usd = 85.5, usd_24h_change = Some 0, usd_market_cap = None, usd_24h_vol = None\<rparr>),
      (''compound-governance-token'', \<lparr>usd = 45.2, usd_24h_change = Some 0, usd_market_cap = None, usd_24h_vol = None\<rparr>),
      (''dai'', \<lparr>usd = 1, usd_24h_change = Some 0, usd_market_cap = None, usd_24h_vol = None\<rparr>),
      (''tether'', \<lparr>usd = 1, usd_24h_change = Some 0, usd_market_cap = None, usd_24h_vol = None\<rparr>),
      (''weth'', \<lparr>usd = 3200, usd_24h_change = Some 0, usd_market_cap = None, usd_24h_vol = None\<rparr>)]"

text \<open>What a call does besides returning: sleeping and the HTTP request.\<close>

datatype effect = Delay int | HttpGet string

record fetch_outcome =
  returned :: "error + payload"
  post :: api_state
  effects :: "effect list"
  finished :: int

text \<open>
  The body of the \<open>try\<close> block, run by one caller with no other caller
  interleaved. \<open>t\<close> is \<open>Date.now()\<close> when the call starts; the synchronous
  code takes no time, \<open>delay(ms)\<close> wakes after exactly \<open>ms\<close>, and the request
  settles \<open>lat\<close> milliseconds after it is sent, as \<open>resp\<close>: rejected
  (network, timeout or parse error) or resolved with \<open>response.data\<close>.
\<close>

definition fetchTokenPrices_try ::
  "api_state \<Rightarrow> int \<Rightarrow> string list \<Rightarrow> int \<Rightarrow> error + payload \<Rightarrow> fetch_outcome" where
  "fetchTokenPrices_try s t tokenIds lat resp =
     (case cache_fresh (cache s) (cacheKey tokenIds) t of
        Some d \<Rightarrow> \<lparr>returned = Inr d, post = s, effects = [], finished = t\<rparr>
      | None \<Rightarrow>
          (let now = t;
               slept = (case rate_limit_delay now (lastRequestTime s) of
                          None \<Rightarrow> [] | Some ms \<Rightarrow> [Delay ms]);
               t1 = (case rate_limit_delay now (lastRequestTime s) of
                       None \<Rightarrow> now | Some ms \<Rightarrow> now + ms);
               s1 = s\<lparr>lastRequestTime := t1\<rparr>;
               sent = slept @ [HttpGet (join_comma tokenIds)];
               t2 = t1 + lat
           in case resp of
                Inl e \<Rightarrow> \<lparr>returned = Inl e, post = s1, effects = sent, finished = t2\<rparr>
              | Inr d \<Rightarrow>
                  \<lparr>returned = Inr d, post = cache_set (cacheKey tokenIds) d t2 s1,
                   effects = sent, finished = t2\<rparr>))"

text \<open>The whole function: the \<open>catch\<close> block turns every error into the fallback table.\<close>

definition fetchTokenPrices ::
  "api_state \<Rightarrow> int \<Rightarrow> string list \<Rightarrow> int \<Rightarrow> error + payload \<Rightarrow> fetch_outcome" where
  "fetchTokenPrices s t tokenIds lat resp =
     (let r = fetchTokenPrices_try s t tokenIds lat resp
      in case returned r of
           Inl e \<Rightarrow> r\<lparr>returned := Inr (JTable fallbackPrices)\<rparr>
         | Inr d \<Rightarrow> r)"

subsection \<open>The rate-limit section under concurrent callers\<close>

text \<open>
  JavaScript runs each caller up to its next \<open>await\<close> before the next caller
  starts. \<open>concurrent_waits now lastReq n\<close> lists, in call order, when each of
  \<open>n\<close> callers that reach the rate-limit section in the same tick (\<open>Date.now()
  = now\<close>, having missed the cache) leaves it. A caller that need not sleep
  writes \<open>lastRequestTime\<close> at once and then suspends in the request; a caller
  that sleeps suspends in \<open>delay\<close> and writes \<open>lastRequestTime\<close> only after
  waking, so the callers after it in the same tick read the value it found.
\<close>

primrec concurrent_waits :: "int \<Rightarrow> int \<Rightarrow> nat \<Rightarrow> int list" where
  "concurrent_waits now lastReq 0 = []"
| "concurrent_waits now lastReq (Suc n) =
     (case rate_limit_delay now lastReq of
        None \<Rightarrow> now # concurrent_waits now now n
      | Some ms \<Rightarrow> (now + ms) # concurrent_waits now lastReq n)"

subsection \<open>The operator \<open>||\<close> on numbers\<close>

text \<open>\<open>x || d\<close> on an optional number: \<open>undefined\<close> and \<open>0\<close> are falsy.\<close>

definition js_or :: "real option \<Rightarrow> real \<Rightarrow> real" where
  "js_or x d = (case x of None \<Rightarrow> d | Some v \<Rightarrow> if v = 0 then d else v)"

section \<open>The chain readers: \<open>src/utils/web3.ts\<close>\<close>

subsection \<open>What the code is given\<close>

text \<open>
  The chain behind the provider: what each read-only call answers, \<open>Inl\<close> when
  the promise is rejected. A contract call is keyed by the contract's address.
  \<open>call_getUserReserveData\<close> gives the first component of the tuple, the only
  one the code reads.
\<close>

record chain =
  eth_getBalance :: "string \<Rightarrow> error + nat"
  call_balanceOf :: "string \<Rightarrow> string \<Rightarrow> error + nat"
  call_decimals :: "string \<Rightarrow> error + nat"
  call_symbol :: "string \<Rightarrow> error + string"
  call_tokenOfOwnerByIndex :: "string \<Rightarrow> string \<Rightarrow> nat \<Rightarrow> error + nat"
  call_positions :: "string \<Rightarrow> nat \<Rightarrow> error + unit"
  call_getUserReserveData :: "string \<Rightarrow> string \<Rightarrow> string \<Rightarrow> error + nat"
  call_exchangeRateStored :: "string \<Rightarrow> error + nat"

text \<open>
  Functions of ethers and of the JavaScript runtime that the code calls and the
  repository does not define: they are parameters of the model.
  \<open>formatUnits v d\<close> prints the integer \<open>v\<close> scaled by \<open>10^d\<close>.
\<close>

record lib =
  isAddress :: "string \<Rightarrow> bool"
  formatUnits :: "nat \<Rightarrow> nat \<Rightarrow> string"
  parseFloat :: "string \<Rightarrow> real"

definition formatEther :: "lib \<Rightarrow> nat \<Rightarrow> string" where
  "formatEther l v = formatUnits l v 18"

text \<open>
  \<open>getProvider()\<close> is \<open>None\<close> when there is no \<open>window.ethereum\<close>; the
  readers take its result as their argument \<open>prov\<close>.
\<close>

definition UNISWAP_V3_POSITION_MANAGER :: string where
  "UNISWAP_V3_POSITION_MANAGER = ''0xC36442b4a4522E871399CD717aBDD847Ab11FE88''"

definition AAVE_LENDING_POOL :: string where
  "AAVE_LENDING_POOL = ''0x7d2768dE32b0b80b7a3454c06BdAc94A69DDc7A9''"

subsection \<open>Balances\<close>

definition getEthBalance :: "lib \<Rightarrow> chain option \<Rightarrow> string \<Rightarrow> string" where
  "getEthBalance l prov address =
     (case prov of
        None \<Rightarrow> ''0''
      | Some c \<Rightarrow> (case eth_getBalance c address of
                     Inl e \<Rightarrow> ''0''
                   | Inr bal \<Rightarrow> formatEther l bal))"

record token_info =
  balance :: string
  symbol :: string
  decimals :: nat

definition zero_balance :: token_info where
  "zero_balance = \<lparr>balance = ''0'', symbol = [], decimals = 18\<rparr>"

text \<open>The contract calls a run of \<open>getTokenBalance\<close> makes, in order.\<close>

datatype chain_call =
  BalanceOf string string | Decimals string | Symbol string

text \<open>
  The \<open>try\<close> block of \<open>getTokenBalance\<close>. The two \<open>.catch\<close> handlers
  default \<open>decimals\<close> and \<open>symbol\<close>; a rejected \<open>balanceOf\<close> leaves the block.
\<close>

definition getTokenBalance_try ::
  "lib \<Rightarrow> chain \<Rightarrow> string \<Rightarrow> string \<Rightarrow> (error + token_info) \<times> chain_call list" where
  "getTokenBalance_try l c tokenAddress walletAddress =
     (if \<not> isAddress l tokenAddress then (Inr zero_balance, [])
      else if \<not> isAddress l walletAddress then (Inr zero_balance, [])
      else (case call_balanceOf c tokenAddress walletAddress of
              Inl e \<Rightarrow> (Inl e, [BalanceOf tokenAddress walletAddress])
            | Inr bal \<Rightarrow>
                if bal = 0 then (Inr zero_balance, [BalanceOf tokenAddress walletAddress])
                else
                  (let dec = (case call_decimals c tokenAddress of Inl e \<Rightarrow> 18 | Inr d \<Rightarrow> d);
                       sym = (case call_symbol c tokenAddress of Inl e \<Rightarrow> ''UNKNOWN'' | Inr x \<Rightarrow> x)
                   in (Inr \<lparr>balance = formatUnits l bal dec, symbol = sym, decimals = dec\<rparr>,
                       [BalanceOf tokenAddress walletAddress, Decimals tokenAddress,
                        Symbol tokenAddress]))))"

definition getTokenBalance ::
  "lib \<Rightarrow> chain option \<Rightarrow> string \<Rightarrow> string \<Rightarrow> (error + token_info) \<times> chain_call list" where
  "getTokenBalance l prov tokenAddress walletAddress =
     (case prov of
        None \<Rightarrow> (Inr zero_balance, [])
      | Some c \<Rightarrow>
          (case getTokenBalance_try l c tokenAddress walletAddress of
             (Inl e, calls) \<Rightarrow> (Inr zero_balance, calls)
           | (Inr r, calls) \<Rightarrow> (Inr r, calls)))"

subsection \<open>Positions\<close>

record DefiPosition =
  protocol :: string
  type :: string
  token :: string
  amount :: string
  value' :: real
  apy :: "real option"
  yield :: "real option"
  poolAddress :: "string option"
  contractAddress :: "string option"

definition uniswap_example :: DefiPosition where
  "uniswap_example =
     \<lparr>protocol = ''Uniswap V3'', type = ''LP Position'', token = ''ETH/USDC'',
      amount = ''1.2 ETH + 3840 USDC'', value' = 7680, apy = Some 12.5, yield = None,
      poolAddress = Some ''0x8ad599c3A0ff1De082011EFDDc58f1908eb6e6D8'',
      contractAddress = None\<rparr>"

definition aave_example :: DefiPosition where
  "aave_example =
     \<lparr>protocol = ''Aave'', type = ''Supply'', token = ''USDC'', amount = ''2000 USDC'',
      value' = 2000, apy = Some 3.2, yield = Some 64, poolAddress = None,
      contractAddress = Some ''0xBcca60bB61934080951369a648Fb03DF4F96263C''\<rparr>"

definition compound_example :: DefiPosition where
  "compound_example =
     \<lparr>protocol = ''Compound'', type = ''Supply'', token = ''ETH'', amount = ''0.8 ETH'',
      value' = 2560, apy = Some 2.8, yield = Some 71.68, poolAddress = None,
      contractAddress = Some ''0x4Ddc2D193948926D02f9B1fE9e1daa0718270ED5''\<rparr>"

text \<open>
  One round of the Uniswap loop: both detail queries inside the inner
  \<open>try\<close>; a failure is logged and the index skipped.
\<close>

definition uniswap_detail :: "chain \<Rightarrow> string \<Rightarrow> nat \<Rightarrow> DefiPosition option" where
  "uniswap_detail c walletAddress i =
     (case call_tokenOfOwnerByIndex c UNISWAP_V3_POSITION_MANAGER walletAddress i of
        Inl e \<Rightarrow> None
      | Inr tokenId \<Rightarrow>
          (case call_positions c UNISWAP_V3_POSITION_MANAGER tokenId of
             Inl e \<Rightarrow> None
           | Inr u \<Rightarrow> Some uniswap_example))"

primrec uniswap_loop :: "chain \<Rightarrow> string \<Rightarrow> nat list \<Rightarrow> DefiPosition list" where
  "uniswap_loop c walletAddress [] = []"
| "uniswap_loop c walletAddress (i # rest) =
     (case uniswap_detail c walletAddress i of
        None \<Rightarrow> uniswap_loop c walletAddress rest
      | Some p \<Rightarrow> p # uniswap_loop c walletAddress rest)"

text \<open>
  \<open>balance.toNumber()\<close> throws when the count does not fit 53 bits; the throw
  is inside the \<open>try\<close> whose handler returns the example. Building the
  contract object from the constant address does not throw, so the outermost
  handler (which returns the empty list) has no branch here.
\<close>

definition getUniswapPositions :: "chain option \<Rightarrow> string \<Rightarrow> DefiPosition list" where
  "getUniswapPositions prov walletAddress =
     (case prov of
        None \<Rightarrow> []
      | Some c \<Rightarrow>
          (case call_balanceOf c UNISWAP_V3_POSITION_MANAGER walletAddress of
             Inl e \<Rightarrow> [uniswap_example]
           | Inr bal \<Rightarrow>
               if bal > 0 then
                 (if bal < 2 ^ 53 then uniswap_loop c walletAddress [0..<min bal 10]
                  else [uniswap_example])
               else []))"

definition aaveAssets :: "(string \<times> string) list" where
  "aaveAssets =
     [(''0xC02aaA39b223FE8D0A0e5C4F27eAD9083C756Cc2'', ''WETH''),
      (''0xA0b86a33E6441b8C4C4C4C4C4C4C4C4C4C4C4C4C'', ''USDC''),
      (''0x6B175474E89094C44Da98b954EedeAC495271d0F'', ''DAI'')]"

text \<open>One round of the Aave loop, for the asset \<open>(address, symbol)\<close>.\<close>

definition aave_asset :: "lib \<Rightarrow> chain \<Rightarrow> string \<Rightarrow> string \<times> string \<Rightarrow> DefiPosition option" where
  "aave_asset l c walletAddress asset =
     (case call_getUserReserveData c AAVE_LENDING_POOL (fst asset) walletAddress of
        Inl e \<Rightarrow> None
      | Inr currentATokenBalance \<Rightarrow>
          if currentATokenBalance > 0 then
            (let bal = formatUnits l currentATokenBalance 18
             in if js_num 0.001 < js_num (parseFloat l bal) then
                  Some \<lparr>protocol = ''Aave'', type = ''Supply'', token = snd asset,
                        amount = bal @ '' '' @ snd asset,
                        value' = js_mul (js_num (parseFloat l bal)) 2000,
                        apy = Some 3.2, yield = Some (js_mul (js_num (parseFloat l bal)) 64),
                        poolAddress = None, contractAddress = Some (fst asset)\<rparr>
                else None)
          else None)"

primrec aave_loop :: "lib \<Rightarrow> chain \<Rightarrow> string \<Rightarrow> (string \<times> string) list \<Rightarrow> DefiPosition list" where
  "aave_loop l c walletAddress [] = []"
| "aave_loop l c walletAddress (asset # rest) =
     (case aave_asset l c walletAddress asset of
        None \<Rightarrow> aave_loop l c walletAddress rest
      | Some p \<Rightarrow> p # aave_loop l c walletAddress rest)"

text \<open>
  Every call that can throw stands inside the handler of its round, so the two
  outer handlers of \<open>getAavePositions\<close> (the example, the empty list) have no
  branch here.
\<close>

definition getAavePositions :: "lib \<Rightarrow> chain option \<Rightarrow> string \<Rightarrow> DefiPosition list" where
  "getAavePositions l prov walletAddress =
     (case prov of
        None \<Rightarrow> []
      | Some c \<Rightarrow> aave_loop l c walletAddress aaveAssets)"

text \<open>The cTokens: address, symbol, underlying.\<close>

definition compoundTokens :: "(string \<times> string \<times> string) list" where
  "compoundTokens =
     [(''0x4Ddc2D193948926D02f9B1fE9e1daa0718270ED5'', ''cETH'', ''ETH''),
      (''0x39AA39c021dfbaE8faC545936693aC917d5E7563'', ''cUSDC'', ''USDC''),
      (''0x5d3a536E4D6DbD6114cc1Ead35777bAB948E3643'', ''cDAI'', ''DAI'')]"

text \<open>
  One round of the Compound loop. \<open>Promise.all\<close> rejects when either call
  does; \<open>parseEther('1')\<close> is \<open>10^18\<close> and \<open>div\<close> truncates.
\<close>

definition compound_token ::
  "lib \<Rightarrow> chain \<Rightarrow> string \<Rightarrow> string \<times> string \<times> string \<Rightarrow> DefiPosition option" where
  "compound_token l c walletAddress cToken =
     (case call_balanceOf c (fst cToken) walletAddress of
        Inl e \<Rightarrow> None
      | Inr bal \<Rightarrow>
          (case call_exchangeRateStored c (fst cToken) of
             Inl e \<Rightarrow> None
           | Inr exchangeRate \<Rightarrow>
               if bal > 0 then
                 (let underlyingAmount = (bal * exchangeRate) div 10 ^ 18;
                      readableAmount = formatEther l underlyingAmount
                  in if js_num 0.001 < js_num (parseFloat l readableAmount) then
                       Some \<lparr>protocol = ''Compound'', type = ''Supply'',
                             token = snd (snd cToken),
                             amount = readableAmount @ '' '' @ snd (snd cToken),
                             value' = js_mul (js_num (parseFloat l readableAmount)) 3200,
                             apy = Some 2.8,
                             yield = Some (js_mul (js_num (parseFloat l readableAmount))
                                             (js_num 71.68)),
                             poolAddress = None, contractAddress = Some (fst cToken)\<rparr>
                     else None)
               else None))"

primrec compound_loop ::
  "lib \<Rightarrow> chain \<Rightarrow> string \<Rightarrow> (string \<times> string \<times> string) list \<Rightarrow> DefiPosition list" where
  "compound_loop l c walletAddress [] = []"
| "compound_loop l c walletAddress (cToken # rest) =
     (case compound_token l c walletAddress cToken of
        None \<Rightarrow> compound_loop l c walletAddress rest
      | Some p \<Rightarrow> p # compound_loop l c walletAddress rest)"

definition getCompoundPositions :: "lib \<Rightarrow> chain option \<Rightarrow> string \<Rightarrow> DefiPosition list" where
  "getCompoundPositions l prov walletAddress =
     (case prov of
        None \<Rightarrow> []
      | Some c \<Rightarrow>
          (let positions = compound_loop l c walletAddress compoundTokens
           in if length positions = 0 then [compound_example] else positions))"

section \<open>The aggregation: \<open>src/app/page.tsx\<close>\<close>

text \<open>
  The row type \<open>TokenBalance\<close> of the page; its fields carry the prefix
  \<open>tb_\<close> because \<open>symbol\<close>, \<open>balance\<close> and \<open>value\<close> name fields of the
  records above.
\<close>

record TokenBalance =
  tb_symbol :: string
  tb_balance :: string
  tb_price :: real
  tb_value :: real

record PortfolioData =
  totalValue :: real
  tokens :: "TokenBalance list"
  defiPositions :: "DefiPosition list"
  totalYield :: real

definition fetchMockData :: PortfolioData where
  "fetchMockData =
     \<lparr>totalValue = 15420.50,
      tokens =
        [\<lparr>tb_symbol = ''ETH'', tb_balance = ''2.5'', tb_price = 3200, tb_value = 8000\<rparr>,
         \<lparr>tb_symbol = ''USDC'', tb_balance = ''5000'', tb_price = 1, tb_value = 5000\<rparr>,
         \<lparr>tb_symbol = ''UNI'', tb_balance = ''100'', tb_price = 24.2, tb_value = 2420\<rparr>],
      defiPositions =
        [\<lparr>protocol = ''Uniswap'', type = ''LP Position'', token = ''ETH/USDC'',
          amount = ''1.2 ETH + 3840 USDC'', value' = 7680, apy = Some 12.5, yield = None,
          poolAddress = None, contractAddress = None\<rparr>,
         \<lparr>protocol = ''Aave'', type = ''Supply'', token = ''USDC'', amount = ''2000 USDC'',
          value' = 2000, apy = Some 3.2, yield = Some 64, poolAddress = None,
          contractAddress = None\<rparr>,
         \<lparr>protocol = ''Compound'', type = ''Supply'', token = ''ETH'', amount = ''0.8 ETH'',
          value' = 2560, apy = Some 2.8, yield = Some 71.68, poolAddress = None,
          contractAddress = None\<rparr>],
      totalYield = 135.68\<rparr>"

definition tokenIds :: "string list" where
  "tokenIds =
     [''ethereum'', ''uniswap'', ''aave'', ''compound-governance-token'', ''dai'', ''tether'',
      ''weth'']"

text \<open>The fixed token list: address, symbol.\<close>

definition commonTokens :: "(string \<times> string) list" where
  "commonTokens =
     [(''0x1f9840a85d5aF5bf1D1762F925BDADdC4201F984'', ''UNI''),
      (''0x7Fc66500c84A76Ad7e9c93437bFc5Ac33E2DDaE9'', ''AAVE''),
      (''0xc00e94Cb662C3520282E6f5717214004A7f26888'', ''COMP''),
      (''0x6B175474E89094C44Da98b954EedeAC495271d0F'', ''DAI''),
      (''0xdAC17F958D2ee523a2206206994597C13D831ec7'', ''USDT''),
      (''0xC02aaA39b223FE8D0A0e5C4F27eAD9083C756Cc2'', ''WETH'')]"

text \<open>\<open>String.prototype.toLowerCase\<close> on ASCII text.\<close>

definition toLowerCase :: "string \<Rightarrow> string" where
  "toLowerCase str =
     map (\<lambda>ch. if 65 \<le> (of_char ch :: nat) \<and> (of_char ch :: nat) \<le> 90
               then char_of (of_char ch + (32 :: nat)) else ch) str"

text \<open>
  One round of the token loop: the row pushed, if any. \<open>getTokenBalance\<close>
  stands inside the \<open>try\<close> of the round, whose handler goes on to the next
  token. An empty \<open>symbol\<close> is falsy.
\<close>

definition token_row ::
  "lib \<Rightarrow> chain option \<Rightarrow> TokenMarketData \<Rightarrow> string \<Rightarrow> string \<times> string \<Rightarrow> TokenBalance option" where
  "token_row l prov prices address tok =
     (case fst (getTokenBalance l prov (fst tok) address) of
        Inl e \<Rightarrow> None
      | Inr balanceData \<Rightarrow>
          if 0 < js_num (parseFloat l (balance balanceData)) \<and> symbol balanceData \<noteq> [] then
            (let price = js_or (map_option usd (prices (toLowerCase (snd tok)))) 0;
                 val = js_mul (js_num (parseFloat l (balance balanceData))) (js_num price)
             in Some \<lparr>tb_symbol = symbol balanceData, tb_balance = balance balanceData,
                      tb_price = price, tb_value = val\<rparr>)
          else None)"

primrec token_loop ::
  "lib \<Rightarrow> chain option \<Rightarrow> TokenMarketData \<Rightarrow> string \<Rightarrow> (string \<times> string) list \<Rightarrow> TokenBalance list" where
  "token_loop l prov prices address [] = []"
| "token_loop l prov prices address (tok # rest) =
     (case token_row l prov prices address tok of
        None \<Rightarrow> token_loop l prov prices address rest
      | Some row \<Rightarrow> row # token_loop l prov prices address rest)"

text \<open>
  The merge step: the position lists in reader order and the two totals, each
  \<open>reduce\<close> a left fold from \<open>0\<close> that rounds after every addition.
\<close>

definition merge_step ::
  "TokenBalance list \<Rightarrow> DefiPosition list \<Rightarrow> DefiPosition list \<Rightarrow> DefiPosition list \<Rightarrow> PortfolioData" where
  "merge_step tokenBalances uniswapPositions aavePositions compoundPositions =
     (let allPositions = uniswapPositions @ aavePositions @ compoundPositions;
          total = js_add (foldl (\<lambda>sum tok. js_add sum (js_num (tb_value tok))) 0 tokenBalances)
                    (foldl (\<lambda>sum pos. js_add sum (js_num (value' pos))) 0 allPositions);
          yields = foldl (\<lambda>sum pos. js_add sum (js_num (js_or (yield pos) 0))) 0 allPositions
      in \<lparr>totalValue = total, tokens = tokenBalances, defiPositions = allPositions,
          totalYield = yields\<rparr>)"

text \<open>\<open>calculateTotalYield\<close> of \<open>api.ts\<close>, the same fold.\<close>

definition calculateTotalYield :: "DefiPosition list \<Rightarrow> real" where
  "calculateTotalYield positions =
     foldl (\<lambda>total position. js_add total (js_num (js_or (yield position) 0))) 0 positions"

text \<open>
  The row of the native balance: \<open>prices.ethereum?.usd || 3200\<close> is the price,
  and the row is pushed when the balance parses to a positive number.
\<close>

definition eth_row :: "lib \<Rightarrow> chain option \<Rightarrow> TokenMarketData \<Rightarrow> string \<Rightarrow> TokenBalance list" where
  "eth_row l prov prices address =
     (let ethBalance = getEthBalance l prov address;
          ethPrice = js_or (map_option usd (prices ''ethereum'')) 3200;
          ethValue = js_mul (js_num (parseFloat l ethBalance)) (js_num ethPrice)
      in if 0 < js_num (parseFloat l ethBalance)
         then [\<lparr>tb_symbol = ''ETH'', tb_balance = ethBalance, tb_price = ethPrice,
                tb_value = ethValue\<rparr>]
         else [])"

text \<open>
  The \<open>try\<close> block of \<open>fetchRealData\<close>. \<open>prices.ethereum\<close> throws a
  \<open>TypeError\<close> when the price call returned \<open>null\<close>; nothing else in the
  block throws past its own handler.
\<close>

definition fetchRealData_try ::
  "api_state \<Rightarrow> int \<Rightarrow> int \<Rightarrow> error + payload \<Rightarrow> lib \<Rightarrow> chain option \<Rightarrow> string
     \<Rightarrow> (error + PortfolioData) \<times> api_state" where
  "fetchRealData_try s t lat resp l prov address =
     (let r = fetchTokenPrices s t tokenIds lat resp
      in case returned r of
           Inl e \<Rightarrow> (Inl e, post r)
         | Inr JNull \<Rightarrow> (Inl TypeError, post r)
         | Inr (JTable prices) \<Rightarrow>
             (let tokenBalances = eth_row l prov prices address
                                  @ token_loop l prov prices address commonTokens
              in (Inr (merge_step tokenBalances (getUniswapPositions prov address)
                         (getAavePositions l prov address)
                         (getCompoundPositions l prov address)),
                  post r)))"

datatype toast = ToastSuccess | ToastError

record aggregation =
  snapshot :: PortfolioData
  toast :: toast
  api_post :: api_state

text \<open>
  The whole function: the handler shows the error toast and returns the
  demonstration snapshot.
\<close>

definition fetchRealData ::
  "api_state \<Rightarrow> int \<Rightarrow> int \<Rightarrow> error + payload \<Rightarrow> lib \<Rightarrow> chain option \<Rightarrow> string \<Rightarrow> aggregation" where
  "fetchRealData s t lat resp l prov address =
     (case fetchRealData_try s t lat resp l prov address of
        (Inl e, s') \<Rightarrow> \<lparr>snapshot = fetchMockData, toast = ToastError, api_post = s'\<rparr>
      | (Inr realData, s') \<Rightarrow> \<lparr>snapshot = realData, toast = ToastSuccess, api_post = s'\<rparr>)"

section \<open>Example inputs\<close>

text \<open>
  Inputs for the concrete runs below: a chain on which every call is rejected,
  one on which only \<open>balanceOf\<close> answers (with 1), one with two position NFTs
  of which only the first can be read, and stand-ins for the library functions.
\<close>

definition offline_chain :: chain where
  "offline_chain =
     \<lparr>eth_getBalance = (\<lambda>address. Inl CallException),
      call_balanceOf = (\<lambda>contract owner. Inl CallException),
      call_decimals = (\<lambda>contract. Inl CallException),
      call_symbol = (\<lambda>contract. Inl CallException),
      call_tokenOfOwnerByIndex = (\<lambda>contract owner i. Inl CallException),
      call_positions = (\<lambda>contract tokenId. Inl CallException),
      call_getUserReserveData = (\<lambda>contract asset user. Inl CallException),
      call_exchangeRateStored = (\<lambda>contract. Inl CallException)\<rparr>"

definition count_only_chain :: chain where
  "count_only_chain = offline_chain\<lparr>call_balanceOf := (\<lambda>contract owner. Inr 1)\<rparr>"

definition stub_lib :: lib where
  "stub_lib =
     \<lparr>isAddress = (\<lambda>a. length a = 42 \<and> take 2 a = ''0x''),
      formatUnits = (\<lambda>v d. if v = 0 then ''0.0'' else ''1.0''),
      parseFloat = (\<lambda>x. if x = ''1.0'' then 1 else 0)\<rparr>"

definition first_detail_chain :: chain where
  "first_detail_chain =
     offline_chain
       \<lparr>call_balanceOf := (\<lambda>contract owner. Inr 2),
        call_tokenOfOwnerByIndex := (\<lambda>contract owner i. if i = 0 then Inr 7 else Inl CallException),
        call_positions := (\<lambda>contract tokenId. Inr ())\<rparr>"

text \<open>
  A chain that holds one ether for every address and rejects every contract
  call; one whose position count does not fit a JavaScript number; and one on
  which the Aave query answers for DAI only and the Compound queries for cUSDC
  only.
\<close>

definition funded_chain :: chain where
  "funded_chain = offline_chain\<lparr>eth_getBalance := (\<lambda>address. Inr (10 ^ 18))\<rparr>"

definition huge_count_chain :: chain where
  "huge_count_chain = offline_chain\<lparr>call_balanceOf := (\<lambda>contract owner. Inr (2 ^ 53))\<rparr>"

definition partial_chain :: chain where
  "partial_chain =
     offline_chain
       \<lparr>call_balanceOf :=
          (\<lambda>contract owner.
             if contract = ''0x39AA39c021dfbaE8faC545936693aC917d5E7563'' then Inr (10 ^ 18)
             else Inl CallException),
        call_getUserReserveData :=
          (\<lambda>contract asset user.
             if asset = ''0x6B175474E89094C44Da98b954EedeAC495271d0F'' then Inr (10 ^ 18)
             else Inl CallException),
        call_exchangeRateStored := (\<lambda>contract. Inr (10 ^ 18))\<rparr>"

section \<open>Properties\<close>

subsection \<open>Rounding\<close>

lemma real_two_power_le: "(2::int) ^ k \<le> n \<Longrightarrow> (2::real) ^ k \<le> of_int n"
proof -
  assume "(2::int) ^ k \<le> n"
  then have "(of_int ((2::int) ^ k) :: real) \<le> of_int n" by (simp only: of_int_le_iff)
  then show ?thesis by simp
qed

lemma real_less_two_power: "n < (2::int) ^ k \<Longrightarrow> of_int n + 1 \<le> (2::real) ^ k"
proof -
  assume "n < (2::int) ^ k"
  then have "n + 1 \<le> 2 ^ k" by simp
  then have "(of_int (n + 1) :: real) \<le> of_int ((2::int) ^ k)" by (simp only: of_int_le_iff)
  then show ?thesis by simp
qed

lemma round_half_even_error: "\<bar>of_int (round_half_even x) - x\<bar> \<le> 1 / 2"
proof -
  have "of_int \<lfloor>x\<rfloor> \<le> x" and "x < of_int \<lfloor>x\<rfloor> + 1" by linarith+
  then show ?thesis
    by (auto simp: round_half_even_def Let_def)
qed

lemma binade_lower:
  assumes "x \<noteq> 0"
  shows "2 powi binade x \<le> \<bar>x\<bar>"
proof (cases "1 \<le> \<bar>x\<bar>")
  case True
  define n where "n = \<lfloor>\<bar>x\<bar>\<rfloor>"
  have n: "0 < n" using True by (simp add: n_def)
  have b: "0 \<le> bitlen n - 1" using n by (simp add: bitlen_alt_def)
  have "(2::int) ^ nat (bitlen n - 1) \<le> n" using bitlen_bounds [OF n] by simp
  then have "(2::real) ^ nat (bitlen n - 1) \<le> of_int n" by (rule real_two_power_le)
  also have "\<dots> \<le> \<bar>x\<bar>" by (simp add: n_def)
  finally have "(2::real) ^ nat (bitlen n - 1) \<le> \<bar>x\<bar>" .
  moreover have "binade x = bitlen n - 1" using True by (simp add: binade_def n_def)
  ultimately show ?thesis using b by (simp add: power_int_nonneg_exp)
next
  case False
  define y where "y = 1 / \<bar>x\<bar>"
  define m where "m = \<lceil>y\<rceil> - 1"
  have ax: "0 < \<bar>x\<bar>" using assms by simp
  have y: "1 < y" using False ax by (simp add: y_def)
  have m: "0 < m" using y by (simp add: m_def; linarith?)
  have ym: "y \<le> of_int m + 1" by (simp add: m_def)
  have "m < 2 ^ nat (bitlen m)" using bitlen_bounds [OF m] by simp
  then have "of_int m + 1 \<le> (2::real) ^ nat (bitlen m)" by (rule real_less_two_power)
  with ym have yb: "y \<le> 2 ^ nat (bitlen m)" by linarith
  have "inverse ((2::real) ^ nat (bitlen m)) \<le> inverse y"
    using yb y by (intro le_imp_inverse_le) simp_all
  moreover have "inverse y = \<bar>x\<bar>" by (simp add: y_def)
  moreover have "2 powi (- bitlen m) = inverse ((2::real) ^ nat (bitlen m))"
    using bitlen_nonneg [of m] by (simp add: power_int_minus power_int_nonneg_exp)
  moreover have "binade x = - bitlen m" using False by (simp add: binade_def m_def y_def)
  ultimately show ?thesis by simp
qed

lemma round_double_error: "\<bar>round_double x - x\<bar> \<le> unit_roundoff * \<bar>x\<bar>"
proof (cases "x = 0")
  case True
  then show ?thesis by (simp add: round_double_def round_half_even_def)
next
  case False
  define q :: real where "q = 2 powi (binade x - 52)"
  have q: "0 < q" by (simp add: q_def)
  have "round_double x - x = (of_int (round_half_even (x / q)) - x / q) * q"
    using q by (simp add: round_double_def q_def field_simps)
  then have "\<bar>round_double x - x\<bar> = \<bar>of_int (round_half_even (x / q)) - x / q\<bar> * q"
    using q by (simp add: abs_mult)
  also have "\<dots> \<le> (1 / 2) * q"
    using round_half_even_error [of "x / q"] q by (intro mult_right_mono) simp_all
  also have "(1 / 2) * q = unit_roundoff * 2 powi binade x"
  proof -
    have "(2::real) powi (binade x - 52) = 2 powi binade x / 2 powi 52"
      by (simp add: power_int_diff)
    then show ?thesis by (simp add: q_def unit_roundoff_def)
  qed
  also have "\<dots> \<le> unit_roundoff * \<bar>x\<bar>"
    using binade_lower [OF False] by (intro mult_left_mono) (simp_all add: unit_roundoff_def)
  finally show ?thesis .
qed

lemma unit_roundoff_nonneg: "0 \<le> unit_roundoff"
  by (simp add: unit_roundoff_def)

lemma js_add_error: "\<bar>js_add x y - (x + y)\<bar> \<le> unit_roundoff * (\<bar>x\<bar> + \<bar>y\<bar>)"
proof -
  have "\<bar>js_add x y - (x + y)\<bar> \<le> unit_roundoff * \<bar>x + y\<bar>"
    unfolding js_add_def by (rule round_double_error)
  also have "\<dots> \<le> unit_roundoff * (\<bar>x\<bar> + \<bar>y\<bar>)"
    using unit_roundoff_nonneg by (intro mult_left_mono) simp_all
  finally show ?thesis .
qed

text \<open>
  The error of a left-to-right rounded sum: at most \<open>(1 + u)^n - 1\<close> times the
  sum of the absolute values, \<open>n\<close> the number of additions and \<open>u\<close> the unit
  roundoff.
\<close>

lemma rounded_sum_step:
  fixes e u T S :: real
  assumes "0 \<le> e" "0 \<le> u" "0 \<le> S"
  shows "e * ((1 + u) * T + S) + u * T \<le> ((1 + u) * (e + 1) - 1) * (T + S)"
proof -
  have "((1 + u) * (e + 1) - 1) * (T + S) - (e * ((1 + u) * T + S) + u * T)
          = u * e * S + u * S"
    by (simp add: algebra_simps)
  moreover have "0 \<le> u * e * S + u * S" using assms by simp
  ultimately show ?thesis by linarith
qed

lemma rounded_sum_error:
  "\<bar>foldl js_add a xs - (a + sum_list xs)\<bar>
     \<le> ((1 + unit_roundoff) ^ length xs - 1) * (\<bar>a\<bar> + sum_list (map abs xs))"
proof (induction xs arbitrary: a)
  case Nil
  show ?case by simp
next
  case (Cons x xs)
  define u where "u = unit_roundoff"
  define a' where "a' = js_add a x"
  define T where "T = \<bar>a\<bar> + \<bar>x\<bar>"
  define S where "S = sum_list (map abs xs)"
  define e where "e = (1 + u) ^ length xs - 1"
  have u: "0 \<le> u" by (simp add: u_def unit_roundoff_nonneg)
  have e: "0 \<le> e" using u by (simp add: e_def)
  have S: "0 \<le> S" unfolding S_def by (rule sum_list_nonneg) auto
  have h1: "\<bar>a' - (a + x)\<bar> \<le> u * T"
    unfolding a'_def u_def T_def by (rule js_add_error)
  have "\<bar>a'\<bar> \<le> \<bar>a + x\<bar> + \<bar>a' - (a + x)\<bar>" by linarith
  also have "\<dots> \<le> T + u * T" using h1 by (simp add: T_def)
  finally have h2: "\<bar>a'\<bar> \<le> (1 + u) * T" by (simp add: algebra_simps)
  have ih: "\<bar>foldl js_add a' xs - (a' + sum_list xs)\<bar> \<le> e * (\<bar>a'\<bar> + S)"
    using Cons.IH [of a'] by (simp add: e_def u_def S_def)
  have "e * (\<bar>a'\<bar> + S) \<le> e * ((1 + u) * T + S)"
    using h2 e by (intro mult_left_mono) simp_all
  with ih have ih': "\<bar>foldl js_add a' xs - (a' + sum_list xs)\<bar> \<le> e * ((1 + u) * T + S)"
    by linarith
  have "\<bar>foldl js_add a' xs - (a + x + sum_list xs)\<bar>
          \<le> \<bar>foldl js_add a' xs - (a' + sum_list xs)\<bar> + \<bar>a' - (a + x)\<bar>"
    by linarith
  also have "\<dots> \<le> e * ((1 + u) * T + S) + u * T" using ih' h1 by linarith
  also have "\<dots> \<le> ((1 + u) * (e + 1) - 1) * (T + S)"
    using e u S by (rule rounded_sum_step)
  finally have "\<bar>foldl js_add a' xs - (a + x + sum_list xs)\<bar>
                  \<le> ((1 + u) * (e + 1) - 1) * (T + S)" .
  moreover have "(1 + u) * (e + 1) - 1 = (1 + unit_roundoff) ^ length (x # xs) - 1"
    by (simp add: e_def u_def)
  moreover have "T + S = \<bar>a\<bar> + sum_list (map abs (x # xs))"
    by (simp add: T_def S_def)
  moreover have "foldl js_add a (x # xs) = foldl js_add a' xs"
    by (simp add: a'_def)
  moreover have "a + sum_list (x # xs) = a + x + sum_list xs" by simp
  ultimately show ?case by simp
qed

lemma rounded_sum_abs:
  "\<bar>foldl js_add 0 xs\<bar> \<le> (1 + unit_roundoff) ^ length xs * sum_list (map abs xs)"
proof -
  have "\<bar>foldl js_add 0 xs\<bar> \<le> \<bar>sum_list xs\<bar> + \<bar>foldl js_add 0 xs - (0 + sum_list xs)\<bar>"
    by linarith
  also have "\<dots> \<le> sum_list (map abs xs)
               + ((1 + unit_roundoff) ^ length xs - 1) * (\<bar>0\<bar> + sum_list (map abs xs))"
    using rounded_sum_error [of 0 xs] sum_list_abs [of xs] by linarith
  also have "\<dots> = (1 + unit_roundoff) ^ length xs * sum_list (map abs xs)"
    by (simp add: algebra_simps)
  finally show ?thesis .
qed

lemma one_plus_u_power_mono:
  "m \<le> n \<Longrightarrow> (1 + unit_roundoff) ^ m \<le> (1 + unit_roundoff) ^ n"
  using unit_roundoff_nonneg by (intro power_increasing) simp_all

lemma rounded_total_error:
  "\<bar>js_add (foldl js_add 0 xs) (foldl js_add 0 ys) - (sum_list xs + sum_list ys)\<bar>
     \<le> ((1 + unit_roundoff) ^ (length xs + length ys + 1) - 1)
        * (sum_list (map abs xs) + sum_list (map abs ys))"
proof -
  define u where "u = unit_roundoff"
  define A where "A = foldl js_add 0 xs"
  define B where "B = foldl js_add 0 ys"
  define SA where "SA = sum_list (map abs xs)"
  define SB where "SB = sum_list (map abs ys)"
  define pa where "pa = (1 + u) ^ length xs"
  define pb where "pb = (1 + u) ^ length ys"
  define pt where "pt = (1 + u) ^ (length xs + length ys + 1)"
  have u: "0 \<le> u" by (simp add: u_def unit_roundoff_nonneg)
  have SA: "0 \<le> SA" unfolding SA_def by (rule sum_list_nonneg) auto
  have SB: "0 \<le> SB" unfolding SB_def by (rule sum_list_nonneg) auto
  have ea: "\<bar>A - sum_list xs\<bar> \<le> (pa - 1) * SA"
    using rounded_sum_error [of 0 xs] by (simp add: A_def pa_def u_def SA_def)
  have eb: "\<bar>B - sum_list ys\<bar> \<le> (pb - 1) * SB"
    using rounded_sum_error [of 0 ys] by (simp add: B_def pb_def u_def SB_def)
  have aa: "\<bar>A\<bar> \<le> pa * SA"
    using rounded_sum_abs [of xs] by (simp add: A_def pa_def u_def SA_def)
  have ab: "\<bar>B\<bar> \<le> pb * SB"
    using rounded_sum_abs [of ys] by (simp add: B_def pb_def u_def SB_def)
  have "\<bar>js_add A B - (A + B)\<bar> \<le> u * (\<bar>A\<bar> + \<bar>B\<bar>)"
    unfolding u_def by (rule js_add_error)
  also have "\<dots> \<le> u * (pa * SA + pb * SB)"
    using aa ab u by (intro mult_left_mono) simp_all
  finally have et: "\<bar>js_add A B - (A + B)\<bar> \<le> u * (pa * SA + pb * SB)" .
  have "\<bar>js_add A B - (sum_list xs + sum_list ys)\<bar>
          \<le> \<bar>js_add A B - (A + B)\<bar> + \<bar>A - sum_list xs\<bar> + \<bar>B - sum_list ys\<bar>"
    by linarith
  also have "\<dots> \<le> u * (pa * SA + pb * SB) + (pa - 1) * SA + (pb - 1) * SB"
    using et ea eb by linarith
  also have "\<dots> = ((1 + u) * pa - 1) * SA + ((1 + u) * pb - 1) * SB"
    by (simp add: algebra_simps)
  also have "\<dots> \<le> (pt - 1) * SA + (pt - 1) * SB"
  proof -
    have "(1 + u) * pa = (1 + u) ^ (length xs + 1)" by (simp add: pa_def)
    also have "\<dots> \<le> pt"
      unfolding pt_def u_def by (rule one_plus_u_power_mono) simp
    finally have 1: "(1 + u) * pa - 1 \<le> pt - 1" by simp
    have "(1 + u) * pb = (1 + u) ^ (length ys + 1)" by (simp add: pb_def)
    also have "\<dots> \<le> pt"
      unfolding pt_def u_def by (rule one_plus_u_power_mono) simp
    finally have 2: "(1 + u) * pb - 1 \<le> pt - 1" by simp
    from 1 SA have "((1 + u) * pa - 1) * SA \<le> (pt - 1) * SA" by (rule mult_right_mono)
    moreover from 2 SB have "((1 + u) * pb - 1) * SB \<le> (pt - 1) * SB" by (rule mult_right_mono)
    ultimately show ?thesis by linarith
  qed
  also have "\<dots> = (pt - 1) * (SA + SB)" by (simp add: algebra_simps)
  finally show ?thesis
    by (simp add: A_def B_def pt_def u_def SA_def SB_def)
qed

subsection \<open>Facts used throughout\<close>

lemma fetchTokenPrices_never_fails:
  "\<exists>d. returned (fetchTokenPrices s t ids lat resp) = Inr d"
  by (cases "returned (fetchTokenPrices_try s t ids lat resp)")
     (simp_all add: fetchTokenPrices_def Let_def)

lemma fetchRealData_table:
  assumes "returned (fetchTokenPrices s t tokenIds lat resp) = Inr (JTable prices)"
  shows "fetchRealData s t lat resp l prov a
           = \<lparr>snapshot = merge_step
                  (eth_row l prov prices a @ token_loop l prov prices a commonTokens)
                  (getUniswapPositions prov a) (getAavePositions l prov a)
                  (getCompoundPositions l prov a),
              toast = ToastSuccess,
              api_post = post (fetchTokenPrices s t tokenIds lat resp)\<rparr>"
  using assms by (simp add: fetchRealData_def fetchRealData_try_def Let_def)

lemma fetchRealData_null:
  assumes "returned (fetchTokenPrices s t tokenIds lat resp) = Inr JNull"
  shows "fetchRealData_try s t lat resp l prov a
           = (Inl TypeError, post (fetchTokenPrices s t tokenIds lat resp))
         \<and> fetchRealData s t lat resp l prov a
           = \<lparr>snapshot = fetchMockData, toast = ToastError,
              api_post = post (fetchTokenPrices s t tokenIds lat resp)\<rparr>"
  using assms by (simp add: fetchRealData_def fetchRealData_try_def Let_def)

lemma fetchRealData_cases:
  "returned (fetchTokenPrices s t tokenIds lat resp) = Inr JNull
   \<or> (\<exists>prices. returned (fetchTokenPrices s t tokenIds lat resp) = Inr (JTable prices))"
proof -
  obtain d where d: "returned (fetchTokenPrices s t tokenIds lat resp) = Inr d"
    using fetchTokenPrices_never_fails by blast
  then show ?thesis by (cases d) simp_all
qed

lemma js_or_zero: "js_or x 0 = (case x of None \<Rightarrow> 0 | Some v \<Rightarrow> v)"
  by (simp add: js_or_def split: option.splits)

lemma fold_token_values:
  "foldl (\<lambda>sum tok. js_add sum (js_num (tb_value tok))) a xs
     = foldl js_add a (map (\<lambda>x. js_num (tb_value x)) xs)"
  by (induction xs arbitrary: a) simp_all

lemma fold_position_values:
  "foldl (\<lambda>sum pos. js_add sum (js_num (value' pos))) a xs
     = foldl js_add a (map (\<lambda>p. js_num (value' p)) xs)"
  by (induction xs arbitrary: a) simp_all

lemma fold_position_yields:
  "foldl (\<lambda>sum pos. js_add sum (js_num (js_or (yield pos) 0))) a xs
     = foldl js_add a
         (map (\<lambda>p. js_num (case yield p of None \<Rightarrow> 0 | Some y \<Rightarrow> y)) xs)"
  by (induction xs arbitrary: a) (simp_all add: js_or_zero)

lemma merge_step_fields:
  "tokens (merge_step tb u a c) = tb \<and> defiPositions (merge_step tb u a c) = u @ a @ c"
  by (simp add: merge_step_def Let_def)

lemma merge_step_totalValue:
  "totalValue (merge_step tb u a c)
       = js_add (foldl js_add 0 (map (\<lambda>x. js_num (tb_value x)) tb))
           (foldl js_add 0 (map (\<lambda>p. js_num (value' p)) (u @ a @ c)))"
  by (simp add: merge_step_def Let_def fold_token_values fold_position_values)

lemma merge_step_totalYield:
  "totalYield (merge_step tb u a c)
       = foldl js_add 0
           (map (\<lambda>p. js_num (case yield p of None \<Rightarrow> 0 | Some y \<Rightarrow> y)) (u @ a @ c))"
  by (simp add: merge_step_def Let_def fold_position_yields)

lemma calculateTotalYield_merge:
  "calculateTotalYield (u @ a @ c) = totalYield (merge_step tb u a c)"
  by (simp add: calculateTotalYield_def merge_step_def Let_def)

lemma fetchRealData_success_is_merge:
  assumes "toast (fetchRealData s t lat resp l prov a) = ToastSuccess"
  shows "snapshot (fetchRealData s t lat resp l prov a)
           = merge_step (tokens (snapshot (fetchRealData s t lat resp l prov a)))
               (getUniswapPositions prov a) (getAavePositions l prov a)
               (getCompoundPositions l prov a)"
proof -
  consider "returned (fetchTokenPrices s t tokenIds lat resp) = Inr JNull"
    | prices where "returned (fetchTokenPrices s t tokenIds lat resp) = Inr (JTable prices)"
    using fetchRealData_cases [of s t lat resp] by blast
  then show ?thesis
  proof cases
    case 1
    then have "toast (fetchRealData s t lat resp l prov a) = ToastError"
      using fetchRealData_null [of s t lat resp l prov a] by simp
    with assms show ?thesis by simp
  next
    case 2
    then have "fetchRealData s t lat resp l prov a
           = \<lparr>snapshot = merge_step
                  (eth_row l prov prices a @ token_loop l prov prices a commonTokens)
                  (getUniswapPositions prov a) (getAavePositions l prov a)
                  (getCompoundPositions l prov a),
              toast = ToastSuccess,
              api_post = post (fetchTokenPrices s t tokenIds lat resp)\<rparr>"
      by (rule fetchRealData_table)
    then show ?thesis by (simp add: merge_step_fields)
  qed
qed

text \<open>Sums and products of the example runs, evaluated.\<close>

lemma js_num_0: "js_num 0 = 0"
  by code_simp

lemma js_num_1: "js_num 1 = 1"
  by code_simp

lemma js_mul_1_3200: "js_mul 1 (js_num 3200) = 3200"
  by code_simp

lemma funded_value_sum:
  "js_add (js_add 0 (js_num 3200)) (js_add (js_add 0 (js_num 7680)) (js_num 2560)) = 13440"
  by code_simp

lemma funded_yield_sum:
  "js_add (js_add 0 (js_num 0)) (js_num (1792 / 25)) = js_num (1792 / 25)"
  by code_simp

lemma js_threshold: "js_num (1 / 1000) < 1"
  by code_simp

lemma js_mul_1_2000: "js_mul 1 2000 = 2000"
  by code_simp

lemma js_mul_1_64: "js_mul 1 64 = 64"
  by code_simp

lemma js_mul_1_3200_plain: "js_mul 1 3200 = 3200"
  by code_simp

lemma js_mul_1_yield: "js_mul 1 (js_num (1792 / 25)) = js_num (1792 / 25)"
  by code_simp

text \<open>
  A run of the success branch: the price request fails, so the fallback table
  is used; the chain holds one ether and rejects every contract call.
\<close>

lemma funded_rows:
  "eth_row stub_lib (Some funded_chain) fallbackPrices a
     = [\<lparr>tb_symbol = ''ETH'', tb_balance = ''1.0'', tb_price = 3200, tb_value = 3200\<rparr>]
   \<and> token_loop stub_lib (Some funded_chain) fallbackPrices a commonTokens = []"
  by (simp add: eth_row_def getEthBalance_def funded_chain_def offline_chain_def formatEther_def
        stub_lib_def fallbackPrices_def js_or_def js_num_0 js_num_1 js_mul_1_3200 commonTokens_def token_row_def
        getTokenBalance_def getTokenBalance_try_def zero_balance_def Let_def)

lemma offline_positions:
  "getUniswapPositions (Some funded_chain) a = [uniswap_example]
   \<and> getAavePositions stub_lib (Some funded_chain) a = []
   \<and> getCompoundPositions stub_lib (Some funded_chain) a = [compound_example]"
  by (simp add: getUniswapPositions_def getAavePositions_def getCompoundPositions_def
        funded_chain_def offline_chain_def aaveAssets_def aave_asset_def compoundTokens_def
        compound_token_def)

lemma funded_totals:
  "merge_step [\<lparr>tb_symbol = ''ETH'', tb_balance = ''1.0'', tb_price = 3200, tb_value = 3200\<rparr>]
     [uniswap_example] [] [compound_example]
   = \<lparr>totalValue = 13440,
      tokens = [\<lparr>tb_symbol = ''ETH'', tb_balance = ''1.0'', tb_price = 3200, tb_value = 3200\<rparr>],
      defiPositions = [uniswap_example, compound_example],
      totalYield = js_num 71.68\<rparr>"
  by (simp add: merge_step_def Let_def uniswap_example_def compound_example_def js_or_def
        funded_value_sum funded_yield_sum)

lemma fetchRealData_funded_example:
  "fetchRealData initial_state 5000 200 (Inl NetworkError) stub_lib (Some funded_chain)
     ''0xd8dA6BF26964aF9D7eEd9e03E53415D37aA96045''
   = \<lparr>snapshot =
        \<lparr>totalValue = 13440,
         tokens = [\<lparr>tb_symbol = ''ETH'', tb_balance = ''1.0'', tb_price = 3200,
                    tb_value = 3200\<rparr>],
         defiPositions = [uniswap_example, compound_example],
         totalYield = js_num 71.68\<rparr>,
      toast = ToastSuccess,
      api_post = \<lparr>cache = [], lastRequestTime = 5000\<rparr>\<rparr>"
proof -
  have p: "fetchTokenPrices initial_state 5000 tokenIds 200 (Inl NetworkError)
             = \<lparr>returned = Inr (JTable fallbackPrices),
                post = \<lparr>cache = [], lastRequestTime = 5000\<rparr>,
                effects = [HttpGet (join_comma tokenIds)], finished = 5200\<rparr>"
    by (simp add: fetchTokenPrices_def fetchTokenPrices_try_def Let_def cache_fresh_def
          initial_state_def rate_limit_delay_def MIN_REQUEST_INTERVAL_def)
  then have "returned (fetchTokenPrices initial_state 5000 tokenIds 200 (Inl NetworkError))
               = Inr (JTable fallbackPrices)" by simp
  from fetchRealData_table [OF this] p show ?thesis
    by (simp add: funded_rows offline_positions funded_totals)
qed

subsection \<open>Totals of the merge step\<close>

text \<open>
  Claim C1, as amended. In every snapshot the merge step produces, the merged
  positions are the three reader lists in reader order, \<open>totalValue\<close> is the
  sum of \<open>value\<close> over the token rows plus the sum of \<open>value\<close> over the merged
  positions, and \<open>totalYield\<close> is the sum of \<open>yield\<close> over the merged positions
  with an absent yield counted as 0 (which is what \<open>calculateTotalYield\<close>
  computes), each sum taken from left to right in double precision. Such a total
  differs from the exact sum of the values by at most \<open>(1 + 2^-53)^n - 1\<close> times
  the sum of their absolute values, \<open>n\<close> the number of additions; no fixed
  tolerance holds. This is so for the merge step on any lists, and every
  snapshot \<open>fetchRealData\<close> returns with the success toast is the merge step's
  output on its own token rows and the three readers' lists.
\<close>

theorem snapshot_totals:
  "tokens (merge_step tb u a c) = tb
   \<and> defiPositions (merge_step tb u a c) = u @ a @ c
   \<and> totalValue (merge_step tb u a c)
       = js_add (foldl js_add 0 (map (\<lambda>x. js_num (tb_value x)) tb))
           (foldl js_add 0 (map (\<lambda>p. js_num (value' p)) (u @ a @ c)))
   \<and> totalYield (merge_step tb u a c)
       = foldl js_add 0
           (map (\<lambda>p. js_num (case yield p of None \<Rightarrow> 0 | Some y \<Rightarrow> y)) (u @ a @ c))
   \<and> calculateTotalYield (u @ a @ c) = totalYield (merge_step tb u a c)
   \<and> \<bar>totalValue (merge_step tb u a c)
        - (sum_list (map (\<lambda>x. js_num (tb_value x)) tb)
           + sum_list (map (\<lambda>p. js_num (value' p)) (u @ a @ c)))\<bar>
       \<le> ((1 + unit_roundoff) ^ (length tb + length (u @ a @ c) + 1) - 1)
          * (sum_list (map (\<lambda>x. \<bar>js_num (tb_value x)\<bar>) tb)
             + sum_list (map (\<lambda>p. \<bar>js_num (value' p)\<bar>) (u @ a @ c)))
   \<and> \<bar>totalYield (merge_step tb u a c)
        - sum_list (map (\<lambda>p. js_num (case yield p of None \<Rightarrow> 0 | Some y \<Rightarrow> y)) (u @ a @ c))\<bar>
       \<le> ((1 + unit_roundoff) ^ length (u @ a @ c) - 1)
          * sum_list (map (\<lambda>p. \<bar>js_num (case yield p of None \<Rightarrow> 0 | Some y \<Rightarrow> y)\<bar>)
              (u @ a @ c))
   \<and> unit_roundoff = 1 / 2 ^ 53
   \<and> (toast (fetchRealData s t lat resp l prov addr) = ToastSuccess \<longrightarrow>
        snapshot (fetchRealData s t lat resp l prov addr)
          = merge_step (tokens (snapshot (fetchRealData s t lat resp l prov addr)))
              (getUniswapPositions prov addr) (getAavePositions l prov addr)
              (getCompoundPositions l prov addr))"
proof (intro conjI impI)
  show "tokens (merge_step tb u a c) = tb" by (simp add: merge_step_fields)
  show "defiPositions (merge_step tb u a c) = u @ a @ c" by (simp add: merge_step_fields)
  show "totalValue (merge_step tb u a c)
       = js_add (foldl js_add 0 (map (\<lambda>x. js_num (tb_value x)) tb))
           (foldl js_add 0 (map (\<lambda>p. js_num (value' p)) (u @ a @ c)))"
    by (rule merge_step_totalValue)
  show "totalYield (merge_step tb u a c)
       = foldl js_add 0
           (map (\<lambda>p. js_num (case yield p of None \<Rightarrow> 0 | Some y \<Rightarrow> y)) (u @ a @ c))"
    by (rule merge_step_totalYield)
  show "calculateTotalYield (u @ a @ c) = totalYield (merge_step tb u a c)"
    by (rule calculateTotalYield_merge)
  show "\<bar>totalValue (merge_step tb u a c)
        - (sum_list (map (\<lambda>x. js_num (tb_value x)) tb)
           + sum_list (map (\<lambda>p. js_num (value' p)) (u @ a @ c)))\<bar>
       \<le> ((1 + unit_roundoff) ^ (length tb + length (u @ a @ c) + 1) - 1)
          * (sum_list (map (\<lambda>x. \<bar>js_num (tb_value x)\<bar>) tb)
             + sum_list (map (\<lambda>p. \<bar>js_num (value' p)\<bar>) (u @ a @ c)))"
    using rounded_total_error [of "map (\<lambda>x. js_num (tb_value x)) tb"
        "map (\<lambda>p. js_num (value' p)) (u @ a @ c)"]
    by (simp only: merge_step_totalValue length_map map_map comp_def)
  show "\<bar>totalYield (merge_step tb u a c)
        - sum_list (map (\<lambda>p. js_num (case yield p of None \<Rightarrow> 0 | Some y \<Rightarrow> y)) (u @ a @ c))\<bar>
       \<le> ((1 + unit_roundoff) ^ length (u @ a @ c) - 1)
          * sum_list (map (\<lambda>p. \<bar>js_num (case yield p of None \<Rightarrow> 0 | Some y \<Rightarrow> y)\<bar>)
              (u @ a @ c))"
    using rounded_sum_error [of 0
        "map (\<lambda>p. js_num (case yield p of None \<Rightarrow> 0 | Some y \<Rightarrow> y)) (u @ a @ c)"]
    by (simp only: merge_step_totalYield length_map map_map comp_def add_0 abs_zero)
  show "unit_roundoff = 1 / 2 ^ 53" by (simp add: unit_roundoff_def)
  assume "toast (fetchRealData s t lat resp l prov addr) = ToastSuccess"
  then show "snapshot (fetchRealData s t lat resp l prov addr)
          = merge_step (tokens (snapshot (fetchRealData s t lat resp l prov addr)))
              (getUniswapPositions prov addr) (getAavePositions l prov addr)
              (getCompoundPositions l prov addr)"
    by (rule fetchRealData_success_is_merge)
qed

theorem snapshot_totals_witness:
  "toast (fetchRealData initial_state 5000 200 (Inl NetworkError) stub_lib (Some funded_chain)
            ''0xd8dA6BF26964aF9D7eEd9e03E53415D37aA96045'') = ToastSuccess
   \<and> snapshot (fetchRealData initial_state 5000 200 (Inl NetworkError) stub_lib
        (Some funded_chain) ''0xd8dA6BF26964aF9D7eEd9e03E53415D37aA96045'')
       = merge_step
           [\<lparr>tb_symbol = ''ETH'', tb_balance = ''1.0'', tb_price = 3200, tb_value = 3200\<rparr>]
           [uniswap_example] [] [compound_example]
   \<and> totalValue (snapshot (fetchRealData initial_state 5000 200 (Inl NetworkError) stub_lib
        (Some funded_chain) ''0xd8dA6BF26964aF9D7eEd9e03E53415D37aA96045'')) = 3200 + (7680 + 2560)
   \<and> totalYield (snapshot (fetchRealData initial_state 5000 200 (Inl NetworkError) stub_lib
        (Some funded_chain) ''0xd8dA6BF26964aF9D7eEd9e03E53415D37aA96045'')) = js_num 71.68"
proof -
  have ex: "fetchRealData initial_state 5000 200 (Inl NetworkError) stub_lib (Some funded_chain)
     ''0xd8dA6BF26964aF9D7eEd9e03E53415D37aA96045''
   = \<lparr>snapshot =
        \<lparr>totalValue = 13440,
         tokens = [\<lparr>tb_symbol = ''ETH'', tb_balance = ''1.0'', tb_price = 3200,
                    tb_value = 3200\<rparr>],
         defiPositions = [uniswap_example, compound_example],
         totalYield = js_num 71.68\<rparr>,
      toast = ToastSuccess,
      api_post = \<lparr>cache = [], lastRequestTime = 5000\<rparr>\<rparr>"
    by (rule fetchRealData_funded_example)
  then have h: "toast (fetchRealData initial_state 5000 200 (Inl NetworkError) stub_lib
      (Some funded_chain) ''0xd8dA6BF26964aF9D7eEd9e03E53415D37aA96045'') = ToastSuccess"
    by simp
  from snapshot_totals [where s = initial_state and t = 5000 and lat = 200
      and resp = "Inl NetworkError" and l = stub_lib and prov = "Some funded_chain"
      and addr = "''0xd8dA6BF26964aF9D7eEd9e03E53415D37aA96045''"] h
  have "snapshot (fetchRealData initial_state 5000 200 (Inl NetworkError) stub_lib
        (Some funded_chain) ''0xd8dA6BF26964aF9D7eEd9e03E53415D37aA96045'')
      = merge_step (tokens (snapshot (fetchRealData initial_state 5000 200
          (Inl NetworkError) stub_lib (Some funded_chain)
          ''0xd8dA6BF26964aF9D7eEd9e03E53415D37aA96045'')))
          (getUniswapPositions (Some funded_chain) ''0xd8dA6BF26964aF9D7eEd9e03E53415D37aA96045'')
          (getAavePositions stub_lib (Some funded_chain)
             ''0xd8dA6BF26964aF9D7eEd9e03E53415D37aA96045'')
          (getCompoundPositions stub_lib (Some funded_chain)
             ''0xd8dA6BF26964aF9D7eEd9e03E53415D37aA96045'')"
    by blast
  then have "snapshot (fetchRealData initial_state 5000 200 (Inl NetworkError) stub_lib
        (Some funded_chain) ''0xd8dA6BF26964aF9D7eEd9e03E53415D37aA96045'')
       = merge_step
           [\<lparr>tb_symbol = ''ETH'', tb_balance = ''1.0'', tb_price = 3200, tb_value = 3200\<rparr>]
           [uniswap_example] [] [compound_example]"
    by (simp add: ex offline_positions)
  with ex h show ?thesis by (simp add: funded_totals)
qed

lemma tolerance_total:
  "js_add (js_add (js_add 0 (js_num (1 / 10))) (js_num (1 / 5)))
     (js_add (js_add 0 (js_num 100000000)) (js_num 2560))
   = 6711058218824499 / 67108864"
  by code_simp

text \<open>
  The claim as stated fails: with two tokens worth 0.1 and 0.2 and two positions
  worth 100000000 and 2560, the total is the double \<open>6711058218824499 / 2^26\<close>,
  about \<open>2.98e-9\<close> below the sum of the four values, whether these are taken
  as written or as the doubles they parse to.
\<close>

theorem totals_tolerance_counterexample:
  "let d = merge_step
             [\<lparr>tb_symbol = ''DAI'', tb_balance = ''0.1'', tb_price = 1, tb_value = 0.1\<rparr>,
              \<lparr>tb_symbol = ''USDT'', tb_balance = ''0.2'', tb_price = 1, tb_value = 0.2\<rparr>]
             []
             [aave_example\<lparr>value' := 100000000\<rparr>]
             [compound_example]
   in totalValue d = 6711058218824499 / 67108864
      \<and> 1 / 10 ^ 9
          < \<bar>totalValue d
               - (sum_list (map tb_value (tokens d)) + sum_list (map value' (defiPositions d)))\<bar>
      \<and> 1 / 10 ^ 9
          < \<bar>totalValue d - (js_num 0.1 + js_num 0.2 + (js_num 100000000 + js_num 2560))\<bar>"
proof -
  let ?d = "merge_step
             [\<lparr>tb_symbol = ''DAI'', tb_balance = ''0.1'', tb_price = 1, tb_value = 0.1\<rparr>,
              \<lparr>tb_symbol = ''USDT'', tb_balance = ''0.2'', tb_price = 1, tb_value = 0.2\<rparr>]
             []
             [aave_example\<lparr>value' := 100000000\<rparr>]
             [compound_example]"
  have t: "totalValue ?d = 6711058218824499 / 67108864"
    by (simp add: merge_step_totalValue aave_example_def compound_example_def
          tolerance_total)
  have s: "sum_list (map tb_value (tokens ?d)) + sum_list (map value' (defiPositions ?d))
             = 0.1 + 0.2 + (100000000 + 2560)"
    by (simp add: merge_step_fields aave_example_def compound_example_def)
  have g1: "1 / 10 ^ 9
              < \<bar>6711058218824499 / 67108864 - (0.1 + 0.2 + (100000000 + 2560 :: real))\<bar>"
    by simp
  have g2: "1 / 10 ^ 9
              < \<bar>6711058218824499 / 67108864
                   - (js_num 0.1 + js_num 0.2 + (js_num 100000000 + js_num 2560))\<bar>"
    by code_simp
  show ?thesis
    unfolding Let_def
  proof (intro conjI)
    show "totalValue ?d = 6711058218824499 / 67108864"
      by (rule t)
    show "1 / 10 ^ 9
          < \<bar>totalValue ?d
               - (sum_list (map tb_value (tokens ?d)) + sum_list (map value' (defiPositions ?d)))\<bar>"
      using g1 by (simp only: t s)
    show "1 / 10 ^ 9
          < \<bar>totalValue ?d - (js_num 0.1 + js_num 0.2 + (js_num 100000000 + js_num 2560))\<bar>"
      using g2 by (simp only: t)
  qed
qed

text \<open>
  The demonstration snapshot, which the merge step does not produce, carries a
  \<open>totalValue\<close> that is not the sum of its parts.
\<close>

lemma fetchMockData_not_summed:
  "totalValue fetchMockData = 15420.50
   \<and> sum_list (map tb_value (tokens fetchMockData))
       + sum_list (map value' (defiPositions fetchMockData)) = 27660"
  by (simp add: fetchMockData_def)

subsection \<open>The price source never fails\<close>

text \<open>
  Claim C2. \<open>fetchTokenPrices\<close> never hands an error to its caller, and when
  the cache misses and the request fails it returns the fallback table, in which
  \<open>ethereum.usd\<close> is 3200 and \<open>uniswap.usd\<close> is 24.2.
\<close>

theorem fetchTokenPrices_fallback:
  assumes "cache_fresh (cache s) (cacheKey ids) t = None"
  shows "returned (fetchTokenPrices s t ids lat (Inl e)) = Inr (JTable fallbackPrices)
     \<and> map_option usd (fallbackPrices ''ethereum'') = Some 3200
     \<and> map_option usd (fallbackPrices ''uniswap'') = Some 24.2
     \<and> (\<exists>d. returned (fetchTokenPrices s t ids lat resp) = Inr d)"
  using assms fetchTokenPrices_never_fails [of s t ids lat resp]
  by (simp add: fetchTokenPrices_def fetchTokenPrices_try_def Let_def fallbackPrices_def)

theorem fetchTokenPrices_fallback_witness:
  "cache_fresh (cache initial_state) (cacheKey [''ethereum'', ''uniswap'']) 5000 = None
   \<and> returned (fetchTokenPrices initial_state 5000 [''ethereum'', ''uniswap''] 10000
        (Inl NetworkError))
       = Inr (JTable fallbackPrices)
   \<and> map_option usd (fallbackPrices ''ethereum'') = Some 3200
   \<and> map_option usd (fallbackPrices ''uniswap'') = Some 24.2"
proof -
  have h: "cache_fresh (cache initial_state) (cacheKey [''ethereum'', ''uniswap'']) 5000 = None"
    by (simp add: cache_fresh_def initial_state_def)
  from fetchTokenPrices_fallback [OF h, of 10000 NetworkError] h show ?thesis by simp
qed

subsection \<open>The cache key\<close>

lemma comma_split_unique:
  assumes "CHR '','' \<notin> set x" and "CHR '','' \<notin> set y"
    and "x @ CHR '','' # r = y @ CHR '','' # r'"
  shows "x = y \<and> r = r'"
proof -
  have "takeWhile (\<lambda>ch. ch \<noteq> CHR '','') (x @ CHR '','' # r) = x"
    using assms(1) by (subst takeWhile_append2) auto
  moreover have "takeWhile (\<lambda>ch. ch \<noteq> CHR '','') (y @ CHR '','' # r') = y"
    using assms(2) by (subst takeWhile_append2) auto
  ultimately have "x = y" using assms(3) by simp
  with assms(3) show ?thesis by simp
qed

lemma join_comma_Cons:
  "join_comma (x # xs) = (if xs = [] then x else x @ CHR '','' # join_comma xs)"
  by (cases xs) simp_all

lemma join_comma_inj:
  assumes "length xs = length ys"
    and "\<forall>x\<in>set xs. CHR '','' \<notin> set x"
    and "\<forall>y\<in>set ys. CHR '','' \<notin> set y"
    and "join_comma xs = join_comma ys"
  shows "xs = ys"
  using assms
proof (induction xs ys rule: list_induct2)
  case Nil
  then show ?case by simp
next
  case (Cons x xs y ys)
  show ?case
  proof (cases "xs = []")
    case True
    with Cons show ?thesis by (simp add: join_comma_Cons)
  next
    case False
    with Cons.hyps have "ys \<noteq> []" by auto
    with False Cons.prems(3)
    have eq: "x @ CHR '','' # join_comma xs = y @ CHR '','' # join_comma ys"
      by (simp add: join_comma_Cons)
    have "x = y \<and> join_comma xs = join_comma ys"
      using comma_split_unique [OF _ _ eq] Cons.prems by simp
    with Cons show ?thesis by simp
  qed
qed

lemma cacheKey_inj:
  assumes "mset ids1 = mset ids2" and "\<forall>x\<in>set ids1. CHR '','' \<notin> set x"
    and "cacheKey ids1 = cacheKey ids2"
  shows "ids1 = ids2"
proof -
  have "length ids1 = length ids2" using assms(1) by (metis size_mset)
  moreover have "set ids1 = set ids2" using assms(1) by (metis set_mset_mset)
  ultimately show ?thesis
    using assms(2,3) by (intro join_comma_inj) (simp_all add: cacheKey_def)
qed

lemma cache_fresh_cache_set_other:
  "k' \<noteq> k \<Longrightarrow> cache_fresh (cache (cache_set k d tw s)) k' t = cache_fresh (cache s) k' t"
  by (simp add: cache_fresh_def cache_set_def update_conv')

lemma cache_fresh_cache_set_same:
  "cache_fresh (cache (cache_set k d tw s)) k t
     = (if t - tw < CACHE_DURATION then Some d else None)"
  by (simp add: cache_fresh_def cache_set_def update_conv')

text \<open>
  Claim C6, as amended. The cache key is the comma-join of the ids in the
  caller's order, unsorted. When no id contains a comma, two requests that list
  the same ids in different orders have different keys; the entry the first one
  stores is invisible to the second, which goes to the network, and the two
  occupy two cache entries.
\<close>

theorem cache_key_order_sensitive:
  assumes "mset ids1 = mset ids2" and "ids1 \<noteq> ids2"
    and "\<forall>x\<in>set ids1. CHR '','' \<notin> set x"
  shows "cacheKey ids1 \<noteq> cacheKey ids2
     \<and> cache_fresh (cache (cache_set (cacheKey ids1) d tw s)) (cacheKey ids2) t
         = cache_fresh (cache s) (cacheKey ids2) t
     \<and> (cache s = [] \<longrightarrow>
          (let r1 = fetchTokenPrices s t1 ids1 lat1 (Inr d1);
               r2 = fetchTokenPrices (post r1) t2 ids2 lat2 (Inr d2)
           in returned r2 = Inr d2
              \<and> HttpGet (join_comma ids2) \<in> set (effects r2)
              \<and> entries (getCacheStats (post r2)) = [cacheKey ids1, cacheKey ids2]
              \<and> size' (getCacheStats (post r2)) = 2))"
proof -
  have ne: "cacheKey ids1 \<noteq> cacheKey ids2"
    using cacheKey_inj [OF assms(1,3)] assms(2) by blast
  then have ne': "cacheKey ids2 \<noteq> cacheKey ids1" by simp
  have "cache_fresh (cache (cache_set (cacheKey ids1) d tw s)) (cacheKey ids2) t
         = cache_fresh (cache s) (cacheKey ids2) t"
    using ne' by (rule cache_fresh_cache_set_other)
  moreover have "cache s = [] \<longrightarrow>
          (let r1 = fetchTokenPrices s t1 ids1 lat1 (Inr d1);
               r2 = fetchTokenPrices (post r1) t2 ids2 lat2 (Inr d2)
           in returned r2 = Inr d2
              \<and> HttpGet (join_comma ids2) \<in> set (effects r2)
              \<and> entries (getCacheStats (post r2)) = [cacheKey ids1, cacheKey ids2]
              \<and> size' (getCacheStats (post r2)) = 2)"
    using ne ne'
    by (simp add: fetchTokenPrices_def fetchTokenPrices_try_def Let_def cache_fresh_def
          cache_set_def getCacheStats_def split: option.splits)
  ultimately show ?thesis using ne by simp
qed

theorem cache_key_order_sensitive_witness:
  "mset [''ethereum'', ''uniswap''] = mset [''uniswap'', ''ethereum'']
   \<and> cacheKey [''ethereum'', ''uniswap''] \<noteq> cacheKey [''uniswap'', ''ethereum'']
   \<and> entries (getCacheStats (post (fetchTokenPrices
        (post (fetchTokenPrices initial_state 5000 [''ethereum'', ''uniswap''] 200
                 (Inr (JTable fallbackPrices))))
        6000 [''uniswap'', ''ethereum''] 200 (Inr (JTable fallbackPrices)))))
       = [cacheKey [''ethereum'', ''uniswap''], cacheKey [''uniswap'', ''ethereum'']]"
proof -
  have a: "mset [''ethereum'', ''uniswap''] = mset [''uniswap'', ''ethereum'']" by simp
  have b: "[''ethereum'', ''uniswap''] \<noteq> [''uniswap'', ''ethereum'']" by simp
  have c: "\<forall>x\<in>set [''ethereum'', ''uniswap'']. CHR '','' \<notin> set x" by simp
  have e: "cache initial_state = []" by (simp add: initial_state_def)
  from cache_key_order_sensitive [OF a b c, of _ _ initial_state _ 5000 200
      "JTable fallbackPrices" 6000 200 "JTable fallbackPrices"] a e
  show ?thesis by (simp add: Let_def)
qed

text \<open>
  The claim as stated fails for ids that contain a comma: the lists
  \<open>["a,a", "a"]\<close> and \<open>["a", "a,a"]\<close> hold the same ids in different orders and
  have the same key, and the second request is served from the entry of the
  first without a request of its own.
\<close>

theorem cache_key_collision_counterexample:
  "mset [''a,a'', ''a''] = mset [''a'', ''a,a'']
   \<and> [''a,a'', ''a''] \<noteq> [''a'', ''a,a'']
   \<and> cacheKey [''a,a'', ''a''] = cacheKey [''a'', ''a,a'']
   \<and> fetchTokenPrices
        (post (fetchTokenPrices initial_state 5000 [''a,a'', ''a''] 200
                 (Inr (JTable fallbackPrices))))
        6000 [''a'', ''a,a''] 200 (Inr (JTable Map.empty))
      = \<lparr>returned = Inr (JTable fallbackPrices),
         post = post (fetchTokenPrices initial_state 5000 [''a,a'', ''a''] 200
                       (Inr (JTable fallbackPrices))),
         effects = [], finished = 6000\<rparr>"
  by (simp add: cacheKey_def fetchTokenPrices_def fetchTokenPrices_try_def Let_def
        cache_fresh_def cache_set_def initial_state_def rate_limit_delay_def
        CACHE_DURATION_def MIN_REQUEST_INTERVAL_def)

subsection \<open>Cache reads after a write\<close>

text \<open>
  The keys of the cache stay distinct, as those of a \<open>Map\<close> are, so the length
  of the list is \<open>cache.size\<close>.
\<close>

lemma cache_keys_distinct:
  "distinct (map fst (cache s)) \<Longrightarrow>
   distinct (map fst (cache (post (fetchTokenPrices s t ids lat resp))))"
  by (cases resp)
     (simp_all add: fetchTokenPrices_def fetchTokenPrices_try_def Let_def cache_set_def
        distinct_update split: option.splits)

lemma fetch_hit:
  "cache_fresh (cache s) (cacheKey ids) t = Some d \<Longrightarrow>
   fetchTokenPrices s t ids lat resp = \<lparr>returned = Inr d, post = s, effects = [], finished = t\<rparr>"
  by (simp add: fetchTokenPrices_def fetchTokenPrices_try_def)

lemma fetch_miss_fail:
  "cache_fresh (cache s) (cacheKey ids) t = None \<Longrightarrow>
   returned (fetchTokenPrices s t ids lat (Inl e)) = Inr (JTable fallbackPrices)
   \<and> cache (post (fetchTokenPrices s t ids lat (Inl e))) = cache s"
  by (simp add: fetchTokenPrices_def fetchTokenPrices_try_def Let_def)

lemma fetch_miss_success:
  "cache_fresh (cache s) (cacheKey ids) t = None \<Longrightarrow>
   returned (fetchTokenPrices s t ids lat (Inr d)) = Inr d
   \<and> cache (post (fetchTokenPrices s t ids lat (Inr d)))
       = AList.update (cacheKey ids)
           \<lparr>data = d, timestamp = finished (fetchTokenPrices s t ids lat (Inr d))\<rparr> (cache s)"
  by (simp add: fetchTokenPrices_def fetchTokenPrices_try_def Let_def cache_set_def)

lemma fetch_miss_requests:
  "cache_fresh (cache s) (cacheKey ids) t = None \<Longrightarrow>
   HttpGet (join_comma ids) \<in> set (effects (fetchTokenPrices s t ids lat resp))"
  by (cases resp) (simp_all add: fetchTokenPrices_def fetchTokenPrices_try_def Let_def)

lemma fetch_other_key_keeps:
  "cacheKey ids2 \<noteq> k \<Longrightarrow>
   map_of (cache (post (fetchTokenPrices s t ids2 lat resp))) k = map_of (cache s) k"
  by (cases resp)
     (simp_all add: fetchTokenPrices_def fetchTokenPrices_try_def Let_def cache_set_def
        update_conv' split: option.splits)

lemma cache_fresh_mono:
  "cache_fresh c k t = None \<Longrightarrow> t \<le> t' \<Longrightarrow> cache_fresh c k t' = None"
  by (auto simp: cache_fresh_def split: option.splits if_splits)

text \<open>
  Claim C5. Take the state after a fetch that missed the cache and succeeded: it
  wrote \<open>d\<close> under the key at time \<open>tw\<close>. A request for the same key less
  than 5 minutes (\<open>CACHE_DURATION\<close>) after \<open>tw\<close> returns exactly \<open>d\<close>, with
  no sleep, no request and no change of state. From 5 minutes on the request is
  a miss and goes to the network, although the expired entry is still in the
  map: it stays through a failed fetch and through fetches of other keys, and
  goes only when a successful fetch of the key overwrites it or \<open>clearCache\<close>
  empties the map.
\<close>

theorem cache_read_after_write:
  assumes "cache_fresh (cache s) (cacheKey ids) t0 = None"
    and "s1 = post (fetchTokenPrices s t0 ids lat0 (Inr d))"
    and "tw = finished (fetchTokenPrices s t0 ids lat0 (Inr d))"
  shows "CACHE_DURATION = 300000
     \<and> map_of (cache s1) (cacheKey ids) = Some \<lparr>data = d, timestamp = tw\<rparr>
     \<and> (t - tw < CACHE_DURATION \<longrightarrow>
          fetchTokenPrices s1 t ids lat resp
            = \<lparr>returned = Inr d, post = s1, effects = [], finished = t\<rparr>)
     \<and> (\<not> t - tw < CACHE_DURATION \<longrightarrow>
          HttpGet (join_comma ids) \<in> set (effects (fetchTokenPrices s1 t ids lat resp))
          \<and> returned (fetchTokenPrices s1 t ids lat (Inr d')) = Inr d'
          \<and> map_of (cache (post (fetchTokenPrices s1 t ids lat (Inl e)))) (cacheKey ids)
              = Some \<lparr>data = d, timestamp = tw\<rparr>
          \<and> map_of (cache (post (fetchTokenPrices s1 t ids lat (Inr d')))) (cacheKey ids)
              = Some \<lparr>data = d', timestamp = finished (fetchTokenPrices s1 t ids lat (Inr d'))\<rparr>)
     \<and> (cacheKey ids2 \<noteq> cacheKey ids \<longrightarrow>
          map_of (cache (post (fetchTokenPrices s1 t2 ids2 lat2 resp2))) (cacheKey ids)
            = Some \<lparr>data = d, timestamp = tw\<rparr>)
     \<and> map_of (cache (clearCache s1)) (cacheKey ids) = None"
proof -
  have entry: "map_of (cache s1) (cacheKey ids) = Some \<lparr>data = d, timestamp = tw\<rparr>"
    using fetch_miss_success [OF assms(1), of lat0 d] assms(2,3) by (simp add: update_conv')
  have fresh: "cache_fresh (cache s1) (cacheKey ids) t
                 = (if t - tw < CACHE_DURATION then Some d else None)"
    using entry by (simp add: cache_fresh_def)
  have hit: "t - tw < CACHE_DURATION \<longrightarrow>
          fetchTokenPrices s1 t ids lat resp
            = \<lparr>returned = Inr d, post = s1, effects = [], finished = t\<rparr>"
    using fresh fetch_hit [of s1 ids t d lat resp] by simp
  have miss: "\<not> t - tw < CACHE_DURATION \<longrightarrow>
          HttpGet (join_comma ids) \<in> set (effects (fetchTokenPrices s1 t ids lat resp))
          \<and> returned (fetchTokenPrices s1 t ids lat (Inr d')) = Inr d'
          \<and> map_of (cache (post (fetchTokenPrices s1 t ids lat (Inl e)))) (cacheKey ids)
              = Some \<lparr>data = d, timestamp = tw\<rparr>
          \<and> map_of (cache (post (fetchTokenPrices s1 t ids lat (Inr d')))) (cacheKey ids)
              = Some \<lparr>data = d', timestamp = finished (fetchTokenPrices s1 t ids lat (Inr d'))\<rparr>"
  proof
    assume "\<not> t - tw < CACHE_DURATION"
    with fresh have m: "cache_fresh (cache s1) (cacheKey ids) t = None" by simp
    show "HttpGet (join_comma ids) \<in> set (effects (fetchTokenPrices s1 t ids lat resp))
          \<and> returned (fetchTokenPrices s1 t ids lat (Inr d')) = Inr d'
          \<and> map_of (cache (post (fetchTokenPrices s1 t ids lat (Inl e)))) (cacheKey ids)
              = Some \<lparr>data = d, timestamp = tw\<rparr>
          \<and> map_of (cache (post (fetchTokenPrices s1 t ids lat (Inr d')))) (cacheKey ids)
              = Some \<lparr>data = d', timestamp = finished (fetchTokenPrices s1 t ids lat (Inr d'))\<rparr>"
      using fetch_miss_requests [OF m, of lat resp] fetch_miss_success [OF m, of lat d']
        fetch_miss_fail [OF m, of lat e] entry
      by (simp add: update_conv')
  qed
  have other: "cacheKey ids2 \<noteq> cacheKey ids \<longrightarrow>
          map_of (cache (post (fetchTokenPrices s1 t2 ids2 lat2 resp2))) (cacheKey ids)
            = Some \<lparr>data = d, timestamp = tw\<rparr>"
    using fetch_other_key_keeps [of ids2 "cacheKey ids" s1 t2 lat2 resp2] entry by simp
  have "map_of (cache (clearCache s1)) (cacheKey ids) = None"
    by (simp add: clearCache_def)
  moreover have "CACHE_DURATION = 300000" by (simp add: CACHE_DURATION_def)
  ultimately show ?thesis using entry hit miss other by blast
qed

theorem cache_read_after_write_witness:
  "fetchTokenPrices
     (post (fetchTokenPrices initial_state 5000 [''ethereum'', ''uniswap''] 200
              (Inr (JTable fallbackPrices))))
     305199 [''ethereum'', ''uniswap''] 200 (Inl NetworkError)
   = \<lparr>returned = Inr (JTable fallbackPrices),
      post = post (fetchTokenPrices initial_state 5000 [''ethereum'', ''uniswap''] 200
                     (Inr (JTable fallbackPrices))),
      effects = [], finished = 305199\<rparr>
   \<and> HttpGet ''ethereum,uniswap''
       \<in> set (effects (fetchTokenPrices
           (post (fetchTokenPrices initial_state 5000 [''ethereum'', ''uniswap''] 200
                    (Inr (JTable fallbackPrices))))
           305200 [''ethereum'', ''uniswap''] 200 (Inl NetworkError)))
   \<and> map_of (cache (post (fetchTokenPrices
           (post (fetchTokenPrices initial_state 5000 [''ethereum'', ''uniswap''] 200
                    (Inr (JTable fallbackPrices))))
           305200 [''ethereum'', ''uniswap''] 200 (Inl NetworkError))))
         (cacheKey [''ethereum'', ''uniswap''])
       = Some \<lparr>data = JTable fallbackPrices, timestamp = 5200\<rparr>"
proof -
  have m: "cache_fresh (cache initial_state) (cacheKey [''ethereum'', ''uniswap'']) 5000 = None"
    by (simp add: cache_fresh_def initial_state_def)
  have tw: "finished (fetchTokenPrices initial_state 5000 [''ethereum'', ''uniswap''] 200
              (Inr (JTable fallbackPrices))) = 5200"
    by (simp add: fetchTokenPrices_def fetchTokenPrices_try_def Let_def cache_fresh_def
          initial_state_def rate_limit_delay_def MIN_REQUEST_INTERVAL_def)
  have d: "CACHE_DURATION = 300000" by (simp add: CACHE_DURATION_def)
  from cache_read_after_write [OF m refl refl, where t = 305199 and lat = 200
      and resp = "Inl NetworkError"] tw d
  have 1: "fetchTokenPrices
     (post (fetchTokenPrices initial_state 5000 [''ethereum'', ''uniswap''] 200
              (Inr (JTable fallbackPrices))))
     305199 [''ethereum'', ''uniswap''] 200 (Inl NetworkError)
   = \<lparr>returned = Inr (JTable fallbackPrices),
      post = post (fetchTokenPrices initial_state 5000 [''ethereum'', ''uniswap''] 200
                     (Inr (JTable fallbackPrices))),
      effects = [], finished = 305199\<rparr>"
    by simp
  from cache_read_after_write [OF m refl refl, where t = 305200 and lat = 200
      and resp = "Inl NetworkError" and e = NetworkError]
    tw d
  have 2: "HttpGet ''ethereum,uniswap''
       \<in> set (effects (fetchTokenPrices
           (post (fetchTokenPrices initial_state 5000 [''ethereum'', ''uniswap''] 200
                    (Inr (JTable fallbackPrices))))
           305200 [''ethereum'', ''uniswap''] 200 (Inl NetworkError)))
   \<and> map_of (cache (post (fetchTokenPrices
           (post (fetchTokenPrices initial_state 5000 [''ethereum'', ''uniswap''] 200
                    (Inr (JTable fallbackPrices))))
           305200 [''ethereum'', ''uniswap''] 200 (Inl NetworkError))))
         (cacheKey [''ethereum'', ''uniswap''])
       = Some \<lparr>data = JTable fallbackPrices, timestamp = 5200\<rparr>"
    by simp
  from 1 2 show ?thesis by simp
qed

subsection \<open>A failed fetch and the cache\<close>

text \<open>
  Claim C10. When the cache misses and the request fails, the call returns the
  fallback table and leaves the cache as it was: the fallback is not stored and
  \<open>getCacheStats\<close> reports what it reported before. A later call with the same
  key therefore goes to the network again, and returns what the network answers.
\<close>

theorem failed_fetch_leaves_cache:
  assumes "cache_fresh (cache s) (cacheKey ids) t = None"
    and "s1 = post (fetchTokenPrices s t ids lat (Inl e))"
  shows "returned (fetchTokenPrices s t ids lat (Inl e)) = Inr (JTable fallbackPrices)
     \<and> cache s1 = cache s
     \<and> getCacheStats s1 = getCacheStats s
     \<and> (t \<le> t' \<longrightarrow>
          HttpGet (join_comma ids) \<in> set (effects (fetchTokenPrices s1 t' ids lat' resp'))
          \<and> returned (fetchTokenPrices s1 t' ids lat' (Inr d')) = Inr d')"
proof -
  have c: "cache s1 = cache s"
    using fetch_miss_fail [OF assms(1), of lat e] assms(2) by simp
  have "t \<le> t' \<longrightarrow>
          HttpGet (join_comma ids) \<in> set (effects (fetchTokenPrices s1 t' ids lat' resp'))
          \<and> returned (fetchTokenPrices s1 t' ids lat' (Inr d')) = Inr d'"
  proof
    assume "t \<le> t'"
    with assms(1) c have m: "cache_fresh (cache s1) (cacheKey ids) t' = None"
      by (simp add: cache_fresh_mono)
    show "HttpGet (join_comma ids) \<in> set (effects (fetchTokenPrices s1 t' ids lat' resp'))
          \<and> returned (fetchTokenPrices s1 t' ids lat' (Inr d')) = Inr d'"
      using fetch_miss_requests [OF m, of lat' resp'] fetch_miss_success [OF m, of lat' d']
      by simp
  qed
  then show ?thesis
    using c fetch_miss_fail [OF assms(1), of lat e] by (simp add: getCacheStats_def)
qed

theorem failed_fetch_leaves_cache_witness:
  "returned (fetchTokenPrices initial_state 5000 [''ethereum'', ''uniswap''] 200
      (Inl NetworkError)) = Inr (JTable fallbackPrices)
   \<and> getCacheStats (post (fetchTokenPrices initial_state 5000 [''ethereum'', ''uniswap''] 200
        (Inl NetworkError))) = \<lparr>size' = 0, entries = []\<rparr>
   \<and> HttpGet ''ethereum,uniswap''
       \<in> set (effects (fetchTokenPrices
           (post (fetchTokenPrices initial_state 5000 [''ethereum'', ''uniswap''] 200
              (Inl NetworkError)))
           5300 [''ethereum'', ''uniswap''] 200 (Inl NetworkError)))"
proof -
  have m: "cache_fresh (cache initial_state) (cacheKey [''ethereum'', ''uniswap'']) 5000 = None"
    by (simp add: cache_fresh_def initial_state_def)
  have g: "getCacheStats initial_state = \<lparr>size' = 0, entries = []\<rparr>"
    by (simp add: getCacheStats_def initial_state_def)
  have le: "(5000::int) \<le> 5300" by simp
  from failed_fetch_leaves_cache [OF m refl, where t' = 5300 and lat' = 200
      and resp' = "Inl NetworkError"] g le
  show ?thesis by simp
qed

subsection \<open>Malformed addresses\<close>

text \<open>
  Claim C7. When the token address or the wallet address fails
  \<open>isAddress\<close>, \<open>getTokenBalance\<close> returns
  \<open>{balance: "0", symbol: "", decimals: 18}\<close>, makes no contract call and
  does not throw.
\<close>

theorem getTokenBalance_malformed:
  assumes "\<not> isAddress l tokenAddress \<or> \<not> isAddress l walletAddress"
  shows "getTokenBalance l prov tokenAddress walletAddress
           = (Inr \<lparr>balance = ''0'', symbol = [], decimals = 18\<rparr>, [])"
  using assms
  by (auto simp: getTokenBalance_def getTokenBalance_try_def zero_balance_def
        split: option.splits)

theorem getTokenBalance_malformed_witness:
  "\<not> isAddress stub_lib ''0x123''
   \<and> getTokenBalance stub_lib (Some count_only_chain)
        ''0x1f9840a85d5aF5bf1D1762F925BDADdC4201F984'' ''0x123''
       = (Inr \<lparr>balance = ''0'', symbol = [], decimals = 18\<rparr>, [])"
proof -
  have h: "\<not> isAddress stub_lib ''0x123''" by (simp add: stub_lib_def)
  then have "\<not> isAddress stub_lib ''0x1f9840a85d5aF5bf1D1762F925BDADdC4201F984''
             \<or> \<not> isAddress stub_lib ''0x123''" by simp
  from getTokenBalance_malformed [OF this, of "Some count_only_chain"] h
  show ?thesis by simp
qed

subsection \<open>The Uniswap reader returns at most ten positions\<close>

lemma uniswap_loop_length: "length (uniswap_loop c a idxs) \<le> length idxs"
  by (induction idxs) (auto split: option.splits)

text \<open>
  Claim C9. \<open>getUniswapPositions\<close> returns at most 10 positions: the loop runs
  over the indices below \<open>min(balance, 10)\<close> and adds at most one position per
  index, and every other path returns a list of length 0 or 1.
\<close>

theorem getUniswapPositions_at_most_10:
  "length (getUniswapPositions prov walletAddress) \<le> 10
   \<and> length (getUniswapPositions prov walletAddress)
       \<le> (case prov of
             None \<Rightarrow> 0
           | Some c \<Rightarrow>
               (case call_balanceOf c UNISWAP_V3_POSITION_MANAGER walletAddress of
                  Inl e \<Rightarrow> 1
                | Inr bal \<Rightarrow> if bal < 2 ^ 53 then min bal 10 else 1))"
proof -
  have "length (uniswap_loop c walletAddress [0..<min bal 10]) \<le> min bal 10" for c bal
    using uniswap_loop_length [of c walletAddress "[0..<min bal 10]"] by simp
  then have b: "length (getUniswapPositions prov walletAddress)
       \<le> (case prov of
             None \<Rightarrow> 0
           | Some c \<Rightarrow>
               (case call_balanceOf c UNISWAP_V3_POSITION_MANAGER walletAddress of
                  Inl e \<Rightarrow> 1
                | Inr bal \<Rightarrow> if bal < 2 ^ 53 then min bal 10 else 1))"
    by (simp add: getUniswapPositions_def split: option.splits sum.splits)
  also have "\<dots> \<le> 10"
    by (simp split: option.splits sum.splits)
  finally show ?thesis using b by simp
qed

subsection \<open>The position readers when queries fail\<close>

lemma uniswap_detail_cases:
  "uniswap_detail c a i
     = (if \<exists>tid. call_tokenOfOwnerByIndex c UNISWAP_V3_POSITION_MANAGER a i = Inr tid
                  \<and> call_positions c UNISWAP_V3_POSITION_MANAGER tid = Inr ()
        then Some uniswap_example else None)"
  by (auto simp: uniswap_detail_def split: sum.splits)

lemma uniswap_loop_replicate:
  "uniswap_loop c a idxs
     = replicate
         (length (filter
            (\<lambda>i. \<exists>tid. call_tokenOfOwnerByIndex c UNISWAP_V3_POSITION_MANAGER a i = Inr tid
                     \<and> call_positions c UNISWAP_V3_POSITION_MANAGER tid = Inr ())
            idxs))
         uniswap_example"
  by (induction idxs) (simp_all add: uniswap_detail_cases)

lemma aave_loop_map_filter:
  "aave_loop l c a assets = List.map_filter (aave_asset l c a) assets"
  by (induction assets) (simp_all split: option.splits)

lemma compound_loop_map_filter:
  "compound_loop l c a cTokens = List.map_filter (compound_token l c a) cTokens"
  by (induction cTokens) (simp_all split: option.splits)

text \<open>
  Claim C3, as amended. With a provider, no reader returns an error, and a
  failing query inside a reader's loop only drops its own round: a round whose
  query fails yields nothing, and a round whose queries succeed yields the same
  position whatever the other rounds do. \<open>getUniswapPositions\<close> returns its
  example position when the position-count query fails or the count is
  \<open>2^53\<close> or more (it does not fit a JavaScript number); for a count \<open>n\<close>
  below \<open>2^53\<close> it returns one example entry for each index below
  \<open>min(n, 10)\<close> whose two detail queries succeed, so the empty list when they
  all fail. \<open>getAavePositions\<close>, when at least one round yields a position,
  returns exactly the positions the rounds yield, in asset order; what it
  returns when no round yields one is left open here. \<open>getCompoundPositions\<close>
  returns exactly the positions its rounds yield, in cToken order, and its
  example position when no round yields one, in particular when every cToken
  has a failing query; it never returns the empty list.
\<close>

theorem position_readers_on_failure:
  "(call_balanceOf c UNISWAP_V3_POSITION_MANAGER a = Inl e \<longrightarrow>
      getUniswapPositions (Some c) a = [uniswap_example])
   \<and> (call_balanceOf c UNISWAP_V3_POSITION_MANAGER a = Inr n \<longrightarrow>
      getUniswapPositions (Some c) a
        = (if n < 2 ^ 53
           then replicate
                  (length (filter
                     (\<lambda>i. \<exists>tid. call_tokenOfOwnerByIndex c UNISWAP_V3_POSITION_MANAGER a i
                                   = Inr tid
                              \<and> call_positions c UNISWAP_V3_POSITION_MANAGER tid = Inr ())
                     [0..<min n 10]))
                  uniswap_example
           else [uniswap_example]))
   \<and> (call_getUserReserveData c AAVE_LENDING_POOL (fst asset) a = Inl e \<longrightarrow>
      aave_asset l c a asset = None)
   \<and> (call_getUserReserveData c AAVE_LENDING_POOL (fst asset) a = Inr b \<longrightarrow>
      aave_asset l c a asset
        = (if 0 < b \<and> js_num 0.001 < js_num (parseFloat l (formatUnits l b 18))
           then Some \<lparr>protocol = ''Aave'', type = ''Supply'', token = snd asset,
                      amount = formatUnits l b 18 @ '' '' @ snd asset,
                      value' = js_mul (js_num (parseFloat l (formatUnits l b 18))) 2000,
                      apy = Some 3.2,
                      yield = Some (js_mul (js_num (parseFloat l (formatUnits l b 18))) 64),
                      poolAddress = None, contractAddress = Some (fst asset)\<rparr>
           else None))
   \<and> (List.map_filter (aave_asset l c a) aaveAssets \<noteq> [] \<longrightarrow>
      getAavePositions l (Some c) a = List.map_filter (aave_asset l c a) aaveAssets)
   \<and> (call_balanceOf c (fst cToken) a = Inl e \<or> call_exchangeRateStored c (fst cToken) = Inl e
        \<longrightarrow> compound_token l c a cToken = None)
   \<and> (call_balanceOf c (fst cToken) a = Inr bal
        \<and> call_exchangeRateStored c (fst cToken) = Inr rate \<longrightarrow>
      compound_token l c a cToken
        = (if 0 < bal
              \<and> js_num 0.001
                  < js_num (parseFloat l (formatEther l (bal * rate div 10 ^ 18)))
           then Some \<lparr>protocol = ''Compound'', type = ''Supply'', token = snd (snd cToken),
                      amount = formatEther l (bal * rate div 10 ^ 18) @ '' ''
                                 @ snd (snd cToken),
                      value' = js_mul
                                 (js_num (parseFloat l (formatEther l (bal * rate div 10 ^ 18))))
                                 3200,
                      apy = Some 2.8,
                      yield = Some (js_mul
                                 (js_num (parseFloat l (formatEther l (bal * rate div 10 ^ 18))))
                                 (js_num 71.68)),
                      poolAddress = None, contractAddress = Some (fst cToken)\<rparr>
           else None))
   \<and> getCompoundPositions l (Some c) a
        = (if List.map_filter (compound_token l c a) compoundTokens = [] then [compound_example]
           else List.map_filter (compound_token l c a) compoundTokens)
   \<and> getCompoundPositions l (Some c) a \<noteq> []"
proof (intro conjI impI)
  assume "call_balanceOf c UNISWAP_V3_POSITION_MANAGER a = Inl e"
  then show "getUniswapPositions (Some c) a = [uniswap_example]"
    by (simp add: getUniswapPositions_def)
next
  assume "call_balanceOf c UNISWAP_V3_POSITION_MANAGER a = Inr n"
  then show "getUniswapPositions (Some c) a
        = (if n < 2 ^ 53
           then replicate
                  (length (filter
                     (\<lambda>i. \<exists>tid. call_tokenOfOwnerByIndex c UNISWAP_V3_POSITION_MANAGER a i
                                   = Inr tid
                              \<and> call_positions c UNISWAP_V3_POSITION_MANAGER tid = Inr ())
                     [0..<min n 10]))
                  uniswap_example
           else [uniswap_example])"
    by (cases "n = 0") (simp_all add: getUniswapPositions_def uniswap_loop_replicate)
next
  assume "call_getUserReserveData c AAVE_LENDING_POOL (fst asset) a = Inl e"
  then show "aave_asset l c a asset = None" by (simp add: aave_asset_def)
next
  assume "call_getUserReserveData c AAVE_LENDING_POOL (fst asset) a = Inr b"
  then show "aave_asset l c a asset
        = (if 0 < b \<and> js_num 0.001 < js_num (parseFloat l (formatUnits l b 18))
           then Some \<lparr>protocol = ''Aave'', type = ''Supply'', token = snd asset,
                      amount = formatUnits l b 18 @ '' '' @ snd asset,
                      value' = js_mul (js_num (parseFloat l (formatUnits l b 18))) 2000,
                      apy = Some 3.2,
                      yield = Some (js_mul (js_num (parseFloat l (formatUnits l b 18))) 64),
                      poolAddress = None, contractAddress = Some (fst asset)\<rparr>
           else None)"
    by (simp add: aave_asset_def Let_def)
next
  assume "List.map_filter (aave_asset l c a) aaveAssets \<noteq> []"
  show "getAavePositions l (Some c) a = List.map_filter (aave_asset l c a) aaveAssets"
    by (simp add: getAavePositions_def aave_loop_map_filter)
next
  assume "call_balanceOf c (fst cToken) a = Inl e \<or> call_exchangeRateStored c (fst cToken) = Inl e"
  then show "compound_token l c a cToken = None"
    by (auto simp: compound_token_def split: sum.splits)
next
  assume "call_balanceOf c (fst cToken) a = Inr bal
        \<and> call_exchangeRateStored c (fst cToken) = Inr rate"
  then show "compound_token l c a cToken
        = (if 0 < bal
              \<and> js_num 0.001
                  < js_num (parseFloat l (formatEther l (bal * rate div 10 ^ 18)))
           then Some \<lparr>protocol = ''Compound'', type = ''Supply'', token = snd (snd cToken),
                      amount = formatEther l (bal * rate div 10 ^ 18) @ '' ''
                                 @ snd (snd cToken),
                      value' = js_mul
                                 (js_num (parseFloat l (formatEther l (bal * rate div 10 ^ 18))))
                                 3200,
                      apy = Some 2.8,
                      yield = Some (js_mul
                                 (js_num (parseFloat l (formatEther l (bal * rate div 10 ^ 18))))
                                 (js_num 71.68)),
                      poolAddress = None, contractAddress = Some (fst cToken)\<rparr>
           else None)"
    by (simp add: compound_token_def Let_def)
next
  show "getCompoundPositions l (Some c) a
        = (if List.map_filter (compound_token l c a) compoundTokens = [] then [compound_example]
           else List.map_filter (compound_token l c a) compoundTokens)"
    by (simp add: getCompoundPositions_def Let_def compound_loop_map_filter)
next
  show "getCompoundPositions l (Some c) a \<noteq> []"
    by (simp add: getCompoundPositions_def Let_def)
qed

text \<open>
  On the chain where the Aave query answers for DAI only and the Compound
  queries for cUSDC only, the failing rounds are dropped and the others kept.
\<close>

lemma partial_aave_rounds:
  "List.map_filter (aave_asset stub_lib partial_chain a) aaveAssets
     = [\<lparr>protocol = ''Aave'', type = ''Supply'', token = ''DAI'', amount = ''1.0 DAI'',
         value' = 2000, apy = Some 3.2, yield = Some 64, poolAddress = None,
         contractAddress = Some ''0x6B175474E89094C44Da98b954EedeAC495271d0F''\<rparr>]"
  by (simp add: aaveAssets_def aave_asset_def partial_chain_def offline_chain_def stub_lib_def
        Let_def js_num_1 js_threshold js_mul_1_2000 js_mul_1_64)

lemma partial_compound_rounds:
  "List.map_filter (compound_token stub_lib partial_chain a) compoundTokens
     = [\<lparr>protocol = ''Compound'', type = ''Supply'', token = ''USDC'', amount = ''1.0 USDC'',
         value' = 3200, apy = Some 2.8, yield = Some (js_num 71.68), poolAddress = None,
         contractAddress = Some ''0x39AA39c021dfbaE8faC545936693aC917d5E7563''\<rparr>]"
  by (simp add: compoundTokens_def compound_token_def partial_chain_def offline_chain_def
        stub_lib_def formatEther_def Let_def js_num_1 js_threshold js_mul_1_3200_plain
        js_mul_1_yield)

lemma offline_compound_rounds:
  "List.map_filter (compound_token stub_lib offline_chain a) compoundTokens = []"
  by (simp add: compoundTokens_def compound_token_def offline_chain_def)

lemma first_detail_indices:
  "filter (\<lambda>i. \<exists>tid. call_tokenOfOwnerByIndex first_detail_chain UNISWAP_V3_POSITION_MANAGER
                         a i = Inr tid
                     \<and> call_positions first_detail_chain UNISWAP_V3_POSITION_MANAGER tid = Inr ())
     [0..<2] = [0]"
  by (simp add: first_detail_chain_def offline_chain_def upt_rec)

theorem position_readers_on_failure_witness:
  "getUniswapPositions (Some offline_chain) ''0xd8dA6BF26964aF9D7eEd9e03E53415D37aA96045''
     = [uniswap_example]
   \<and> getCompoundPositions stub_lib (Some offline_chain)
       ''0xd8dA6BF26964aF9D7eEd9e03E53415D37aA96045''
     = [compound_example]
   \<and> getUniswapPositions (Some first_detail_chain)
       ''0xd8dA6BF26964aF9D7eEd9e03E53415D37aA96045''
     = [uniswap_example]
   \<and> getUniswapPositions (Some huge_count_chain)
       ''0xd8dA6BF26964aF9D7eEd9e03E53415D37aA96045''
     = [uniswap_example]
   \<and> aave_asset stub_lib partial_chain ''0xd8dA6BF26964aF9D7eEd9e03E53415D37aA96045''
       (''0xC02aaA39b223FE8D0A0e5C4F27eAD9083C756Cc2'', ''WETH'') = None
   \<and> getAavePositions stub_lib (Some partial_chain)
       ''0xd8dA6BF26964aF9D7eEd9e03E53415D37aA96045''
     = [\<lparr>protocol = ''Aave'', type = ''Supply'', token = ''DAI'', amount = ''1.0 DAI'',
         value' = 2000, apy = Some 3.2, yield = Some 64, poolAddress = None,
         contractAddress = Some ''0x6B175474E89094C44Da98b954EedeAC495271d0F''\<rparr>]
   \<and> compound_token stub_lib partial_chain ''0xd8dA6BF26964aF9D7eEd9e03E53415D37aA96045''
       (''0x4Ddc2D193948926D02f9B1fE9e1daa0718270ED5'', ''cETH'', ''ETH'') = None
   \<and> getCompoundPositions stub_lib (Some partial_chain)
       ''0xd8dA6BF26964aF9D7eEd9e03E53415D37aA96045''
     = [\<lparr>protocol = ''Compound'', type = ''Supply'', token = ''USDC'', amount = ''1.0 USDC'',
         value' = 3200, apy = Some 2.8, yield = Some (js_num 71.68), poolAddress = None,
         contractAddress = Some ''0x39AA39c021dfbaE8faC545936693aC917d5E7563''\<rparr>]"
proof -
  let ?a = "''0xd8dA6BF26964aF9D7eEd9e03E53415D37aA96045''"
  have u: "call_balanceOf offline_chain UNISWAP_V3_POSITION_MANAGER ?a = Inl CallException"
    by (simp add: offline_chain_def)
  have "getUniswapPositions (Some offline_chain) ?a = [uniswap_example]
        \<and> getCompoundPositions stub_lib (Some offline_chain) ?a
            = (if List.map_filter (compound_token stub_lib offline_chain ?a) compoundTokens = []
               then [compound_example]
               else List.map_filter (compound_token stub_lib offline_chain ?a) compoundTokens)"
    using position_readers_on_failure [where c = offline_chain and a = ?a
        and e = CallException and l = stub_lib] u
    by blast
  then have 1: "getUniswapPositions (Some offline_chain) ?a = [uniswap_example]
           \<and> getCompoundPositions stub_lib (Some offline_chain) ?a = [compound_example]"
    by (simp add: offline_compound_rounds)
  have n2: "call_balanceOf first_detail_chain UNISWAP_V3_POSITION_MANAGER ?a = Inr 2"
    by (simp add: first_detail_chain_def offline_chain_def)
  have "getUniswapPositions (Some first_detail_chain) ?a
          = (if (2::nat) < 2 ^ 53
             then replicate
                    (length (filter
                       (\<lambda>i. \<exists>tid. call_tokenOfOwnerByIndex first_detail_chain
                                       UNISWAP_V3_POSITION_MANAGER ?a i = Inr tid
                                \<and> call_positions first_detail_chain
                                       UNISWAP_V3_POSITION_MANAGER tid = Inr ())
                       [0..<min 2 10]))
                    uniswap_example
             else [uniswap_example])"
    using position_readers_on_failure [where c = first_detail_chain and a = ?a and n = 2] n2
    by blast
  then have 2: "getUniswapPositions (Some first_detail_chain) ?a = [uniswap_example]"
    by (simp add: first_detail_indices)
  have n3: "call_balanceOf huge_count_chain UNISWAP_V3_POSITION_MANAGER ?a = Inr (2 ^ 53)"
    by (simp add: huge_count_chain_def offline_chain_def)
  have "getUniswapPositions (Some huge_count_chain) ?a
          = (if (2::nat) ^ 53 < 2 ^ 53
             then replicate
                    (length (filter
                       (\<lambda>i. \<exists>tid. call_tokenOfOwnerByIndex huge_count_chain
                                       UNISWAP_V3_POSITION_MANAGER ?a i = Inr tid
                                \<and> call_positions huge_count_chain
                                       UNISWAP_V3_POSITION_MANAGER tid = Inr ())
                       [0..<min (2 ^ 53) 10]))
                    uniswap_example
             else [uniswap_example])"
    using position_readers_on_failure [where c = huge_count_chain and a = ?a and n = "2 ^ 53"]
      n3
    by blast
  then have 3: "getUniswapPositions (Some huge_count_chain) ?a = [uniswap_example]"
    by simp
  have w: "call_getUserReserveData partial_chain AAVE_LENDING_POOL
             (fst (''0xC02aaA39b223FE8D0A0e5C4F27eAD9083C756Cc2'', ''WETH'')) ?a
           = Inl CallException"
    by (simp add: partial_chain_def offline_chain_def)
  have ce: "call_balanceOf partial_chain
              (fst (''0x4Ddc2D193948926D02f9B1fE9e1daa0718270ED5'', ''cETH'', ''ETH'')) ?a
            = Inl CallException"
    by (simp add: partial_chain_def offline_chain_def)
  have ne: "List.map_filter (aave_asset stub_lib partial_chain ?a) aaveAssets \<noteq> []"
    by (simp add: partial_aave_rounds)
  have 4: "aave_asset stub_lib partial_chain ?a
             (''0xC02aaA39b223FE8D0A0e5C4F27eAD9083C756Cc2'', ''WETH'') = None
           \<and> getAavePositions stub_lib (Some partial_chain) ?a
               = List.map_filter (aave_asset stub_lib partial_chain ?a) aaveAssets
           \<and> compound_token stub_lib partial_chain ?a
               (''0x4Ddc2D193948926D02f9B1fE9e1daa0718270ED5'', ''cETH'', ''ETH'') = None
           \<and> getCompoundPositions stub_lib (Some partial_chain) ?a
               = (if List.map_filter (compound_token stub_lib partial_chain ?a) compoundTokens = []
                  then [compound_example]
                  else List.map_filter (compound_token stub_lib partial_chain ?a) compoundTokens)"
    using position_readers_on_failure [where c = partial_chain and a = ?a
        and e = CallException and l = stub_lib
        and asset = "(''0xC02aaA39b223FE8D0A0e5C4F27eAD9083C756Cc2'', ''WETH'')"
        and cToken = "(''0x4Ddc2D193948926D02f9B1fE9e1daa0718270ED5'', ''cETH'', ''ETH'')"]
      w ce ne
    by blast
  from 1 2 3 4 show ?thesis
    by (simp add: partial_aave_rounds partial_compound_rounds)
qed

text \<open>
  The claim as stated fails on partial failure: when the position-count query
  answers 1 and the detail query for index 0 is rejected, \<open>getUniswapPositions\<close>
  returns the empty list, not the example position; and when all three Aave
  queries are rejected, \<open>getAavePositions\<close> returns the empty list.
\<close>

theorem partial_failure_counterexample:
  "call_balanceOf count_only_chain UNISWAP_V3_POSITION_MANAGER
     ''0xd8dA6BF26964aF9D7eEd9e03E53415D37aA96045'' = Inr 1
   \<and> call_tokenOfOwnerByIndex count_only_chain UNISWAP_V3_POSITION_MANAGER
       ''0xd8dA6BF26964aF9D7eEd9e03E53415D37aA96045'' 0 = Inl CallException
   \<and> getUniswapPositions (Some count_only_chain) ''0xd8dA6BF26964aF9D7eEd9e03E53415D37aA96045''
       = []
   \<and> call_getUserReserveData offline_chain AAVE_LENDING_POOL
       ''0xC02aaA39b223FE8D0A0e5C4F27eAD9083C756Cc2''
       ''0xd8dA6BF26964aF9D7eEd9e03E53415D37aA96045'' = Inl CallException
   \<and> getAavePositions stub_lib (Some offline_chain)
       ''0xd8dA6BF26964aF9D7eEd9e03E53415D37aA96045'' = []"
  by (simp add: getUniswapPositions_def getAavePositions_def count_only_chain_def
        offline_chain_def uniswap_detail_def aave_asset_def aaveAssets_def)

subsection \<open>The aggregation as a whole\<close>



subsection \<open>The rate limiter under concurrent callers\<close>

lemma concurrent_waits_same_tick:
  "concurrent_waits now now n = replicate n (now + MIN_REQUEST_INTERVAL)"
  by (induction n) (simp_all add: rate_limit_delay_def MIN_REQUEST_INTERVAL_def)

lemma concurrent_waits_burst:
  "MIN_REQUEST_INTERVAL \<le> now - lastReq \<Longrightarrow>
   concurrent_waits now lastReq (Suc n) = now # replicate n (now + MIN_REQUEST_INTERVAL)"
  by (simp add: rate_limit_delay_def concurrent_waits_same_tick)

text \<open>
  Claim C4 says that the Nth of N concurrent callers leaves the rate-limit wait
  no earlier than \<open>(N-1) * 1000\<close> ms after the first. The code does not do
  that: of three callers that enter at time 5000 with \<open>lastRequestTime = 0\<close>,
  the first goes on at 5000 and the second and the third both go on at 6000,
  which is less than 2000 ms after the first.
\<close>

theorem three_concurrent_callers:
  "concurrent_waits 5000 0 3 = [5000, 6000, 6000]
   \<and> concurrent_waits 5000 0 3 ! 2 < concurrent_waits 5000 0 3 ! 0 + 2 * MIN_REQUEST_INTERVAL"
  by (simp add: eval_nat_numeral rate_limit_delay_def MIN_REQUEST_INTERVAL_def)

end
